theory Spec2Isabelle
  imports Complex_Main "HOL-Library.Signed_Division"
begin

section \<open>Data model\<close>

text \<open>
  The integrator of \<^verbatim>\<open>integrator_wkm.c\<close> works on a \<^verbatim>\<open>struct reb_simulation\<close>.
  The declarations of the structures are in \<^verbatim>\<open>rebound.h\<close>, which is not part of the
  sources at hand; the records below hold exactly the fields the file reads or writes.

  \<^item> A \<^verbatim>\<open>double\<close> is a value of the type parameter \<open>'d\<close>. The arithmetic of the
    source is written with the syntactic classes \<open>plus\<close>, \<open>times\<close>, \<open>uminus\<close> and
    \<open>inverse\<close> only, so no law of arithmetic (associativity, cancellation, ...) is
    ever used: every result holds for IEEE doubles as well as for the reals.
  \<^item> Integer fields whose declaration is missing are mathematical integers; the code
    only compares them with constants, assigns constants to them, and divides
    \<open>corrector\<close> by ten. The particle counts \<open>N\<close> and \<open>allocated_N\<close>, which are
    array sizes and bounds of the iterations, are natural numbers.
  \<^item> An array is the list of its elements; the pointer \<^verbatim>\<open>ri_whfast.p_jh\<close>, which the
    code tests against \<^verbatim>\<open>NULL\<close>, is an optional list. The pointer
    \<^verbatim>\<open>ri_wkm.temp_pj\<close> is never tested in the functions modelled here; a null
    pointer there is the empty list.
  \<^item> Everything else a simulation holds is the field \<open>rest\<close> of type \<open>'x\<close>.
\<close>

record 'd reb_particle =
  x :: 'd
  y :: 'd
  z :: 'd
  vx :: 'd
  vy :: 'd
  vz :: 'd
  ax :: 'd
  ay :: 'd
  az :: 'd
  m :: 'd

datatype coordinates_t =
    REB_WHFAST_COORDINATES_JACOBI
  | REB_WHFAST_COORDINATES_DEMOCRATICHELIOCENTRIC
  | REB_WHFAST_COORDINATES_WHDS

record 'd reb_simulation_integrator_whfast =
  coordinates :: coordinates_t
  recalculate_coordinates_this_timestep :: int
  keep_unsynchronized :: int
  p_jh :: "'d reb_particle list option"

record 'd reb_simulation_integrator_wkm =
  corrector :: int
  safe_mode :: int
  is_synchronized :: int
  allocated_N :: nat
  temp_pj :: "'d reb_particle list"

record ('d, 'x) reb_simulation =
  t :: 'd
  G :: 'd
  dt :: 'd
  dt_last_done :: 'd
  N :: nat
  var_config_N :: int
  gravity_ignore_terms :: int
  particles :: "'d reb_particle list"
  ri_whfast :: "'d reb_simulation_integrator_whfast"
  ri_wkm :: "'d reb_simulation_integrator_wkm"
  rest :: 'x

section \<open>The collaborators\<close>

text \<open>
  The drift and kick operators, the coordinate transformations, the force evaluation and
  the set-up of the WHFast integrator are defined in other files of the repository. They
  are parameters of the model, collected in one record. A routine that receives the
  simulation is a function on simulations; a transformation receives three arrays and
  a length, and returns the new contents of the array it writes.

  \<open>lit q\<close> is the double that the decimal literal \<open>q\<close> of the source denotes,
  \<open>c_sqrt\<close> is \<^verbatim>\<open>sqrt\<close> of \<^verbatim>\<open>math.h\<close>, and \<open>uninitialized\<close> is what
  freshly allocated memory holds.

  Modelled from the spec: the transformations are declared in \<^verbatim>\<open>transformations.h\<close>;
  \<open>jacobi_to_inertial\<close> writes the inertial array (its first argument) and
  \<open>inertial_to_jacobi_acc\<close> writes the Jacobi array (its second argument).
\<close>

record ('d, 'x) collaborators =
  lit :: "rat \<Rightarrow> 'd"
  c_sqrt :: "'d \<Rightarrow> 'd"
  uninitialized :: "'d reb_particle"
  reb_whfast_kepler_step :: "('d, 'x) reb_simulation \<Rightarrow> 'd \<Rightarrow> ('d, 'x) reb_simulation"
  reb_whfast_com_step :: "('d, 'x) reb_simulation \<Rightarrow> 'd \<Rightarrow> ('d, 'x) reb_simulation"
  reb_whfast_interaction_step :: "('d, 'x) reb_simulation \<Rightarrow> 'd \<Rightarrow> ('d, 'x) reb_simulation"
  reb_update_acceleration :: "('d, 'x) reb_simulation \<Rightarrow> ('d, 'x) reb_simulation"
  reb_integrator_whfast_init :: "('d, 'x) reb_simulation \<Rightarrow> int \<times> ('d, 'x) reb_simulation"
  reb_integrator_whfast_from_inertial :: "('d, 'x) reb_simulation \<Rightarrow> ('d, 'x) reb_simulation"
  reb_integrator_whfast_to_inertial :: "('d, 'x) reb_simulation \<Rightarrow> ('d, 'x) reb_simulation"
  reb_whfast_apply_corrector ::
    "('d, 'x) reb_simulation \<Rightarrow> 'd \<Rightarrow> int \<Rightarrow>
     (('d, 'x) reb_simulation \<Rightarrow> 'd \<Rightarrow> 'd \<Rightarrow> ('d, 'x) reb_simulation) \<Rightarrow> ('d, 'x) reb_simulation"
  reb_transformations_jacobi_to_inertial_pos ::
    "'d reb_particle list \<Rightarrow> 'd reb_particle list option \<Rightarrow> 'd reb_particle list \<Rightarrow> nat
     \<Rightarrow> 'd reb_particle list"
  reb_transformations_jacobi_to_inertial_posvel ::
    "'d reb_particle list \<Rightarrow> 'd reb_particle list option \<Rightarrow> 'd reb_particle list \<Rightarrow> nat
     \<Rightarrow> 'd reb_particle list"
  reb_transformations_inertial_to_jacobi_acc ::
    "'d reb_particle list \<Rightarrow> 'd reb_particle list \<Rightarrow> 'd reb_particle list \<Rightarrow> nat
     \<Rightarrow> 'd reb_particle list"

section \<open>The corrector kernel and the composition builders\<close>

text \<open>
  \<^verbatim>\<open>reb_transformations_jacobi_to_inertial_pos(particles, ri_whfast->p_jh, particles, N)\<close>
  as the source calls it: the inertial array is rewritten from the Jacobi array.
\<close>

definition jacobi_to_inertial_pos ::
  "('d, 'x) collaborators \<Rightarrow> ('d, 'x) reb_simulation \<Rightarrow> nat \<Rightarrow> ('d, 'x) reb_simulation" where
  "jacobi_to_inertial_pos E r n =
     r\<lparr>particles := reb_transformations_jacobi_to_inertial_pos E
          (particles r) (p_jh (ri_whfast r)) (particles r) n\<rparr>"

definition reb_wkm_corrector_Z ::
  "('d::{plus,times,uminus,inverse}, 'x) collaborators \<Rightarrow> ('d, 'x) reb_simulation \<Rightarrow> 'd \<Rightarrow> 'd
   \<Rightarrow> ('d, 'x) reb_simulation" where
  "reb_wkm_corrector_Z E r a b =
    (let N_real = N r;
         r1 = reb_whfast_kepler_step E r a;
         r2 = jacobi_to_inertial_pos E r1 N_real;
         r3 = reb_update_acceleration E r2;
         r4 = reb_whfast_interaction_step E r3 (- b);
         r5 = reb_whfast_kepler_step E r4 (- lit E 2 * a);
         r6 = jacobi_to_inertial_pos E r5 N_real;
         r7 = reb_update_acceleration E r6;
         r8 = reb_whfast_interaction_step E r7 b
     in reb_whfast_kepler_step E r8 a)"

definition reb_wkm_apply_C ::
  "('d::{plus,times,uminus,inverse}, 'x) collaborators \<Rightarrow> ('d, 'x) reb_simulation \<Rightarrow> 'd \<Rightarrow> 'd
   \<Rightarrow> ('d, 'x) reb_simulation" where
  "reb_wkm_apply_C E r a b =
    (let r1 = reb_whfast_kepler_step E r a;
         r2 = reb_whfast_com_step E r1 a;
         N_real = N r2;
         r3 = jacobi_to_inertial_pos E r2 N_real;
         r4 = reb_update_acceleration E r3;
         r5 = reb_whfast_interaction_step E r4 b;
         r6 = reb_whfast_kepler_step E r5 (- a)
     in reb_whfast_com_step E r6 (- a))"

definition reb_wkm_apply_Y ::
  "('d::{plus,times,uminus,inverse}, 'x) collaborators \<Rightarrow> ('d, 'x) reb_simulation \<Rightarrow> 'd \<Rightarrow> 'd
   \<Rightarrow> ('d, 'x) reb_simulation" where
  "reb_wkm_apply_Y E r a b =
    (let r1 = reb_wkm_apply_C E r a b
     in reb_wkm_apply_C E r1 (- a) (- b))"

definition reb_wkm_apply_U ::
  "('d::{plus,times,uminus,inverse}, 'x) collaborators \<Rightarrow> ('d, 'x) reb_simulation \<Rightarrow> 'd \<Rightarrow> 'd
   \<Rightarrow> ('d, 'x) reb_simulation" where
  "reb_wkm_apply_U E r a b =
    (let r1 = reb_whfast_kepler_step E r a;
         r2 = reb_whfast_com_step E r1 a;
         r3 = reb_wkm_apply_Y E r2 a b;
         r4 = reb_wkm_apply_Y E r3 a (- b);
         r5 = reb_whfast_kepler_step E r4 (- a)
     in reb_whfast_com_step E r5 (- a))"

definition reb_wkm_apply_corrector2 ::
  "('d::{plus,times,uminus,inverse}, 'x) collaborators \<Rightarrow> ('d, 'x) reb_simulation \<Rightarrow> 'd
   \<Rightarrow> ('d, 'x) reb_simulation" where
  "reb_wkm_apply_corrector2 E r dt' =
    (let a = lit E 0.5 * dt';
         b = lit E 0.03486083443891981449909050107438281205803 * dt';
         r1 = reb_wkm_apply_U E r a b
     in reb_wkm_apply_U E r1 (- a) b)"

section \<open>Memory\<close>

text \<open>
  \<^verbatim>\<open>malloc\<close> and \<^verbatim>\<open>realloc\<close> are assumed to succeed. Fresh memory holds the
  unspecified particle \<open>uninitialized\<close>; \<^verbatim>\<open>realloc\<close> keeps the old contents up to
  the new size. \<^verbatim>\<open>memcpy dst src n\<close> overwrites the first \<open>n\<close> elements of \<open>dst\<close>.
  Reading or writing outside an array, or through a null pointer, is undefined in C:
  the theorems below are stated for arrays that hold the \<open>N\<close> particles the code
  accesses.
\<close>

definition c_malloc :: "('d, 'x) collaborators \<Rightarrow> nat \<Rightarrow> 'd reb_particle list" where
  "c_malloc E n = replicate n (uninitialized E)"

definition c_realloc ::
  "('d, 'x) collaborators \<Rightarrow> 'd reb_particle list \<Rightarrow> nat \<Rightarrow> 'd reb_particle list" where
  "c_realloc E old n = take n old @ replicate (n - length old) (uninitialized E)"

definition memcpy :: "'a list \<Rightarrow> 'a list \<Rightarrow> nat \<Rightarrow> 'a list" where
  "memcpy dst src n = take n src @ drop n dst"

definition deref :: "'a list option \<Rightarrow> 'a list" where
  "deref p = (case p of None \<Rightarrow> [] | Some xs \<Rightarrow> xs)"

section \<open>Synchronization\<close>

text \<open>
  \<^verbatim>\<open>corrector%10\<close> and \<^verbatim>\<open>corrector/10\<close> are C's division, which truncates towards
  zero (\<open>smod\<close>, \<open>sdiv\<close>); on a value that is not negative this is also the division of
  an unsigned field.
\<close>

definition reb_integrator_wkm_synchronize ::
  "('d::{plus,times,uminus,inverse}, 'x) collaborators \<Rightarrow> ('d, 'x) reb_simulation
   \<Rightarrow> ('d, 'x) reb_simulation" where
  "reb_integrator_wkm_synchronize E r =
    (let corrector' = corrector (ri_wkm r) smod 10;
         kernel = corrector (ri_wkm r) sdiv 10
     in if is_synchronized (ri_wkm r) = 0 then
       (let N' = N r;
            r0 = r\<lparr>gravity_ignore_terms := 1\<rparr>;
            sync_pj =
              (if keep_unsynchronized (ri_whfast r0) \<noteq> 0
               then Some (memcpy (c_malloc E (N r0)) (deref (p_jh (ri_whfast r0))) (N r0))
               else None);
            r1 =
              (if kernel = 0 then
                 (let rk = reb_whfast_kepler_step E r0 (lit E 3 / lit E 8 * dt r0)
                  in reb_whfast_com_step E rk (lit E 3 / lit E 8 * dt rk))
               else if kernel = 1 then
                 (let rk = reb_whfast_kepler_step E r0 (lit E 1 / lit E 2 * dt r0)
                  in reb_whfast_com_step E rk (lit E 1 / lit E 2 * dt rk))
               else r0);
            r2 =
              (if corrector' \<noteq> 0 then
                 (let rz = reb_whfast_apply_corrector E r1 (- lit E 1) 11 (reb_wkm_corrector_Z E)
                  in if corrector' \<ge> 2 then reb_wkm_apply_corrector2 E rz (- dt rz) else rz)
               else r1);
            r3 = r2\<lparr>particles := reb_transformations_jacobi_to_inertial_posvel E
                   (particles r2) (p_jh (ri_whfast r2)) (particles r2) N'\<rparr>
        in if keep_unsynchronized (ri_whfast r3) \<noteq> 0 then
             r3\<lparr>ri_whfast := (ri_whfast r3)\<lparr>p_jh :=
                   map_option (\<lambda>dst. memcpy dst (deref sync_pj) (N r3)) (p_jh (ri_whfast r3))\<rparr>\<rparr>
           else r3\<lparr>ri_wkm := (ri_wkm r3)\<lparr>is_synchronized := 1\<rparr>\<rparr>)
     else r)"

section \<open>Part 1 of a step\<close>

text \<open>
  \<^verbatim>\<open>reb_error\<close> reports a message and the function returns; the model returns the
  report together with the simulation as the call leaves it. \<open>None\<close> is a call that ran to
  its end.
\<close>

datatype wkm_error = Reb_error string | Whfast_init_failed

definition reb_integrator_wkm_part1 ::
  "('d::{plus,times,uminus,inverse}, 'x) collaborators \<Rightarrow> ('d, 'x) reb_simulation
   \<Rightarrow> wkm_error option \<times> ('d, 'x) reb_simulation" where
  "reb_integrator_wkm_part1 E r =
    (let corrector' = corrector (ri_wkm r) smod 10;
         kernel = corrector (ri_wkm r) sdiv 10;
         r0 = r\<lparr>gravity_ignore_terms := 1\<rparr>
     in if var_config_N r0 > 0 \<and> coordinates (ri_whfast r0) \<noteq> REB_WHFAST_COORDINATES_JACOBI then
          (Some (Reb_error ''Variational particles are not supported in the WKM integrator.''), r0)
        else if coordinates (ri_whfast r0) \<noteq> REB_WHFAST_COORDINATES_JACOBI then
          (Some (Reb_error
             ''WKM integrator requires ri_whfast.coordinates to be set to Jacobi coordinates.''), r0)
        else if kernel > 1 then
          (Some (Reb_error ''WKM Kernel not implemented''), r0)
        else
          (case reb_integrator_whfast_init E r0 of (failed, r1) \<Rightarrow>
           if failed \<noteq> 0 then (Some Whfast_init_failed, r1)
           else
            (let r2 =
                   (if safe_mode (ri_wkm r1) \<noteq> 0
                       \<or> recalculate_coordinates_this_timestep (ri_whfast r1) \<noteq> 0 then
                      (let ri = reb_integrator_whfast_from_inertial E r1
                       in ri\<lparr>ri_whfast :=
                              (ri_whfast ri)\<lparr>recalculate_coordinates_this_timestep := 0\<rparr>\<rparr>)
                    else r1);
                 r3 =
                   (if is_synchronized (ri_wkm r2) \<noteq> 0 then
                      (let rc =
                             (if corrector' \<noteq> 0 then
                                (let rz = reb_whfast_apply_corrector E r2 (lit E 1) 11
                                            (reb_wkm_corrector_Z E)
                                 in if corrector' \<ge> 2
                                    then reb_wkm_apply_corrector2 E rz (dt rz) else rz)
                              else r2)
                       in if kernel = 0 then
                            (let rk = reb_whfast_kepler_step E rc (lit E 5 / lit E 8 * dt rc)
                             in reb_whfast_com_step E rk (lit E 5 / lit E 8 * dt rk))
                          else if kernel = 1 then
                            (let rk = reb_whfast_kepler_step E rc (lit E 1 / lit E 2 * dt rc)
                             in reb_whfast_com_step E rk (lit E 1 / lit E 2 * dt rk))
                          else rc)
                    else
                      (let rk = reb_whfast_kepler_step E r2 (dt r2)
                       in reb_whfast_com_step E rk (dt rk)))
             in (None, reb_integrator_whfast_to_inertial E r3))))"

section \<open>Part 2 of a step\<close>

text \<open>The branch \<^verbatim>\<open>kernel==0\<close> of \<^verbatim>\<open>reb_integrator_wkm_part2\<close>.\<close>

definition wkm_part2_composition ::
  "('d::{plus,times,uminus,inverse}, 'x) collaborators \<Rightarrow> ('d, 'x) reb_simulation \<Rightarrow> nat
   \<Rightarrow> ('d, 'x) reb_simulation" where
  "wkm_part2_composition E r N' =
    (let r1 = reb_whfast_interaction_step E r (- lit E 1 / lit E 6 * dt r);
         r2 = reb_whfast_kepler_step E r1 (- lit E 1 / lit E 4 * dt r1);
         r3 = reb_whfast_com_step E r2 (- lit E 1 / lit E 4 * dt r2);
         r4 = jacobi_to_inertial_pos E r3 N';
         r5 = reb_update_acceleration E r4;
         r6 = reb_whfast_interaction_step E r5 (lit E 1 / lit E 6 * dt r5);
         r7 = reb_whfast_kepler_step E r6 (lit E 1 / lit E 8 * dt r6);
         r8 = reb_whfast_com_step E r7 (lit E 1 / lit E 8 * dt r7);
         r9 = jacobi_to_inertial_pos E r8 N';
         r10 = reb_update_acceleration E r9;
         r11 = reb_whfast_interaction_step E r10 (dt r10);
         r12 = reb_whfast_kepler_step E r11 (- lit E 1 / lit E 8 * dt r11);
         r13 = reb_whfast_com_step E r12 (- lit E 1 / lit E 8 * dt r12);
         r14 = jacobi_to_inertial_pos E r13 N';
         r15 = reb_update_acceleration E r14;
         r16 = reb_whfast_interaction_step E r15 (- lit E 1 / lit E 6 * dt r15);
         r17 = reb_whfast_kepler_step E r16 (lit E 1 / lit E 4 * dt r16);
         r18 = reb_whfast_com_step E r17 (lit E 1 / lit E 4 * dt r17);
         r19 = jacobi_to_inertial_pos E r18 N';
         r20 = reb_update_acceleration E r19
     in reb_whfast_interaction_step E r20 (lit E 1 / lit E 6 * dt r20))"

text \<open>
  One round of the first loop of the branch \<^verbatim>\<open>kernel==1\<close> (WHT Eq 10.6), on the
  running sum \<open>eta\<close>, the Jacobi array \<open>p_j\<close> and the scratch array \<open>temp_pj\<close>.
\<close>

definition wkm_lazy_round ::
  "('d::{plus,times,uminus,inverse}, 'x) collaborators \<Rightarrow> 'd \<Rightarrow> 'd \<Rightarrow> nat
   \<Rightarrow> 'd \<times> 'd reb_particle list \<times> 'd reb_particle list
   \<Rightarrow> 'd \<times> 'd reb_particle list \<times> 'd reb_particle list" where
  "wkm_lazy_round E G' dt' i s =
    (case s of (eta, p_j, temp) \<Rightarrow>
     (let pji = p_j ! i;
          eta' = eta + m pji;
          prefac1 = dt' * dt' / lit E 12;
          temp' =
            (if i > 1 then
               (let rj2i = lit E 1 / (x pji * x pji + y pji * y pji + z pji * z pji);
                    rji = c_sqrt E rj2i;
                    rj3iM = rji * rj2i * G' * eta';
                    ti = temp ! i
                in temp[i := ti\<lparr>ax := ax ti + rj3iM * x ti,
                                 ay := ay ti + rj3iM * y ti,
                                 az := az ti + rj3iM * z ti\<rparr>])
             else temp);
          pi = p_j ! i;
          ti' = temp' ! i
      in (eta',
          p_j[i := pi\<lparr>x := x pi + prefac1 * ax ti',
                      y := y pi + prefac1 * ay ti',
                      z := z pi + prefac1 * az ti'\<rparr>],
          temp')))"

function wkm_lazy_loop ::
  "('d::{plus,times,uminus,inverse}, 'x) collaborators \<Rightarrow> 'd \<Rightarrow> 'd \<Rightarrow> nat \<Rightarrow> nat
   \<Rightarrow> 'd \<times> 'd reb_particle list \<times> 'd reb_particle list
   \<Rightarrow> 'd \<times> 'd reb_particle list \<times> 'd reb_particle list" where
  "wkm_lazy_loop E G' dt' n i s =
     (if i < n then wkm_lazy_loop E G' dt' n (i + 1) (wkm_lazy_round E G' dt' i s) else s)"
  by pat_completeness auto
termination
  by (relation "measure (\<lambda>(E, G', dt', n, i, s). n - i)") auto

declare wkm_lazy_loop.simps [simp del]

text \<open>The second loop: the positions are reset from the scratch array.\<close>

function wkm_reset_loop ::
  "nat \<Rightarrow> nat \<Rightarrow> 'd reb_particle list \<Rightarrow> 'd reb_particle list \<Rightarrow> 'd reb_particle list" where
  "wkm_reset_loop n i p_j temp =
     (if i < n then
        wkm_reset_loop n (i + 1)
          (p_j[i := (p_j ! i)\<lparr>x := x (temp ! i), y := y (temp ! i), z := z (temp ! i)\<rparr>]) temp
      else p_j)"
  by pat_completeness auto
termination
  by (relation "measure (\<lambda>(n, i, p_j, temp). n - i)") auto

declare wkm_reset_loop.simps [simp del]

text \<open>
  The branch \<^verbatim>\<open>kernel==1\<close>. \<open>pj\<close> is the contents of \<^verbatim>\<open>ri_whfast->p_jh\<close>, which
  the caller has found not to be null.
\<close>

definition wkm_part2_lazy ::
  "('d::{plus,times,uminus,inverse}, 'x) collaborators \<Rightarrow> ('d, 'x) reb_simulation
   \<Rightarrow> 'd reb_particle list \<Rightarrow> ('d, 'x) reb_simulation" where
  "wkm_part2_lazy E r pj =
    (let dt' = dt r;
         N' = N r;
         ra = (if allocated_N (ri_wkm r) \<noteq> N' then
                 r\<lparr>ri_wkm := (ri_wkm r)\<lparr>allocated_N := N',
                        temp_pj := c_realloc E (temp_pj (ri_wkm r)) N'\<rparr>\<rparr>
               else r);
         G' = G ra;
         pj1 = reb_transformations_inertial_to_jacobi_acc E (particles ra) pj (particles ra) N';
         temp1 = memcpy (temp_pj (ri_wkm ra)) pj1 (N ra);
         eta = m (particles ra ! 0)
     in case wkm_lazy_loop E G' dt' N' 1 (eta, pj1, temp1) of (eta', pj2, temp2) \<Rightarrow>
       (let rb = ra\<lparr>ri_whfast := (ri_whfast ra)\<lparr>p_jh := Some pj2\<rparr>,
                    ri_wkm := (ri_wkm ra)\<lparr>temp_pj := temp2\<rparr>\<rparr>;
            rc = jacobi_to_inertial_pos E rb N';
            rd = reb_update_acceleration E rc;
            re = reb_whfast_interaction_step E rd dt'
        in re\<lparr>ri_whfast := (ri_whfast re)\<lparr>p_jh :=
               map_option (\<lambda>p_j. wkm_reset_loop N' 1 p_j (temp_pj (ri_wkm re)))
                 (p_jh (ri_whfast re))\<rparr>\<rparr>))"

definition reb_integrator_wkm_part2 ::
  "('d::{plus,times,uminus,inverse}, 'x) collaborators \<Rightarrow> ('d, 'x) reb_simulation
   \<Rightarrow> ('d, 'x) reb_simulation" where
  "reb_integrator_wkm_part2 E r =
    (let kernel = corrector (ri_wkm r) sdiv 10;
         N' = N r
     in case p_jh (ri_whfast r) of
          None \<Rightarrow> r
        | Some pj \<Rightarrow>
           (let r1 = (if kernel = 0 then wkm_part2_composition E r N'
                      else if kernel = 1 then wkm_part2_lazy E r pj
                      else r);
                r2 = r1\<lparr>ri_wkm := (ri_wkm r1)\<lparr>is_synchronized := 0\<rparr>\<rparr>;
                r3 = (if safe_mode (ri_wkm r2) \<noteq> 0 then reb_integrator_wkm_synchronize E r2
                      else r2)
            in r3\<lparr>t := t r3 + dt r3, dt_last_done := dt r3\<rparr>))"

section \<open>The operator sequences of the specification\<close>

text \<open>
  The specification describes each part of a step as a sequence of stages. A kick is
  the interaction step; an orbital drift is the Kepler step; a drift is the Kepler step
  followed by the centre-of-mass step with the same coefficient; repositioning rewrites
  the inertial positions from the Coordinate Buffer; reforcing evaluates the
  accelerations. \<open>run_stages\<close> applies a sequence from left to right, for \<open>n\<close> particles.
\<close>

datatype 'd stage = Kick 'd | Drift 'd | Orbital_drift 'd | Reposition | Reforce

definition drift ::
  "('d, 'x) collaborators \<Rightarrow> ('d, 'x) reb_simulation \<Rightarrow> 'd \<Rightarrow> ('d, 'x) reb_simulation" where
  "drift E r a = reb_whfast_com_step E (reb_whfast_kepler_step E r a) a"

fun apply_stage ::
  "('d, 'x) collaborators \<Rightarrow> nat \<Rightarrow> ('d, 'x) reb_simulation \<Rightarrow> 'd stage
   \<Rightarrow> ('d, 'x) reb_simulation" where
  "apply_stage E n r (Kick b) = reb_whfast_interaction_step E r b"
| "apply_stage E n r (Drift a) = drift E r a"
| "apply_stage E n r (Orbital_drift a) = reb_whfast_kepler_step E r a"
| "apply_stage E n r Reposition = jacobi_to_inertial_pos E r n"
| "apply_stage E n r Reforce = reb_update_acceleration E r"

definition run_stages ::
  "('d, 'x) collaborators \<Rightarrow> nat \<Rightarrow> ('d, 'x) reb_simulation \<Rightarrow> 'd stage list
   \<Rightarrow> ('d, 'x) reb_simulation" where
  "run_stages E n r stages = foldl (apply_stage E n) r stages"

text \<open>The stages of the corrector kernel \<open>Z\<close> for the coefficients \<open>a\<close> and \<open>b\<close>.\<close>

definition corrector_Z_stages ::
  "('d::{plus,times,uminus,inverse}, 'x) collaborators \<Rightarrow> 'd \<Rightarrow> 'd \<Rightarrow> 'd stage list" where
  "corrector_Z_stages E a b =
     [Orbital_drift a, Reposition, Reforce, Kick (- b),
      Orbital_drift (- lit E 2 * a), Reposition, Reforce, Kick b,
      Orbital_drift a]"

text \<open>The nine kicks and drifts of the composition kernel for the step \<open>h\<close>.\<close>

definition composition_stages ::
  "('d::{plus,times,uminus,inverse}, 'x) collaborators \<Rightarrow> 'd \<Rightarrow> 'd stage list" where
  "composition_stages E h =
     [Kick (- lit E 1 / lit E 6 * h),
      Drift (- lit E 1 / lit E 4 * h), Reposition, Reforce,
      Kick (lit E 1 / lit E 6 * h),
      Drift (lit E 1 / lit E 8 * h), Reposition, Reforce,
      Kick h,
      Drift (- lit E 1 / lit E 8 * h), Reposition, Reforce,
      Kick (- lit E 1 / lit E 6 * h),
      Drift (lit E 1 / lit E 4 * h), Reposition, Reforce,
      Kick (lit E 1 / lit E 6 * h)]"

text \<open>
  The end of part 2, after either kernel: the state is marked unsynchronized, it is
  synchronized at once in safe mode, the time advances by \<open>dt\<close> and \<open>dt\<close> is recorded as
  the last step done.
\<close>

definition wkm_finish ::
  "('d::{plus,times,uminus,inverse}, 'x) collaborators \<Rightarrow> ('d, 'x) reb_simulation
   \<Rightarrow> ('d, 'x) reb_simulation" where
  "wkm_finish E r =
    (let u = r\<lparr>ri_wkm := (ri_wkm r)\<lparr>is_synchronized := 0\<rparr>\<rparr>;
         s = (if safe_mode (ri_wkm r) \<noteq> 0 then reb_integrator_wkm_synchronize E u else u)
     in s\<lparr>t := t s + dt s, dt_last_done := dt s\<rparr>)"

text \<open>
  The corrector driver for the corrector digit \<open>c\<close>: the first layer is the corrector
  of order 11 built from \<open>Z\<close>, with the sign \<open>sign\<close>; the second layer is
  \<open>U(a,b)\<close> followed by \<open>U(-a,b)\<close> for the step \<open>h\<close>.
\<close>

definition corrector_driver ::
  "('d::{plus,times,uminus,inverse}, 'x) collaborators \<Rightarrow> int \<Rightarrow> ('d, 'x) reb_simulation
   \<Rightarrow> 'd \<Rightarrow> 'd \<Rightarrow> ('d, 'x) reb_simulation" where
  "corrector_driver E c r sign h =
    (if c = 0 then r
     else
       (let a = lit E 0.5 * h;
            b = lit E 0.03486083443891981449909050107438281205803 * h;
            r1 = reb_whfast_apply_corrector E r sign 11 (reb_wkm_corrector_Z E)
        in if 2 \<le> c then reb_wkm_apply_U E (reb_wkm_apply_U E r1 a b) (- a) b else r1))"

text \<open>
  The state in which part 1 starts its drifts: the force evaluator has been told to
  ignore terms, WHFast has been set up, and the Coordinate Buffer has been recomputed
  from the inertial state in safe mode or when WHFast asked for it.
\<close>

definition part1_setup ::
  "('d, 'x) collaborators \<Rightarrow> ('d, 'x) reb_simulation \<Rightarrow> ('d, 'x) reb_simulation" where
  "part1_setup E r =
    (let r1 = snd (reb_integrator_whfast_init E (r\<lparr>gravity_ignore_terms := 1\<rparr>))
     in if safe_mode (ri_wkm r1) \<noteq> 0
           \<or> recalculate_coordinates_this_timestep (ri_whfast r1) \<noteq> 0 then
          (let ri = reb_integrator_whfast_from_inertial E r1
           in ri\<lparr>ri_whfast := (ri_whfast ri)\<lparr>recalculate_coordinates_this_timestep := 0\<rparr>\<rparr>)
        else r1)"

text \<open>
  What a synchronization computes from an unsynchronized state: the trailing drift of
  the kernel, the corrector driver with the sign and the step inverted, and the
  conversion of the Coordinate Buffer to inertial positions and velocities.
\<close>

definition synchronized_view ::
  "('d::{plus,times,uminus,inverse}, 'x) collaborators \<Rightarrow> ('d, 'x) reb_simulation
   \<Rightarrow> ('d, 'x) reb_simulation" where
  "synchronized_view E r =
    (let kernel = corrector (ri_wkm r) sdiv 10;
         h = dt r;
         r0 = r\<lparr>gravity_ignore_terms := 1\<rparr>;
         r1 = (if kernel = 0 then drift E r0 (lit E 3 / lit E 8 * h)
               else if kernel = 1 then drift E r0 (lit E 1 / lit E 2 * h)
               else r0);
         r2 = corrector_driver E (corrector (ri_wkm r) smod 10) r1 (- lit E 1) (- h)
     in r2\<lparr>particles := reb_transformations_jacobi_to_inertial_posvel E
            (particles r2) (p_jh (ri_whfast r2)) (particles r2) (N r)\<rparr>)"

text \<open>
  The correction pass of the lazy implementer's kernel, particle by particle.
  \<open>on_planets n f xs\<close> replaces the elements \<open>1, \<dots>, n - 1\<close> of \<open>xs\<close> by \<open>f 1, \<dots>, f (n - 1)\<close>.
  For the inertial particles \<open>ps\<close> and the Jacobi particles \<open>pj\<close>, \<open>lazy_eta ps pj i\<close> is
  the mass of the particles \<open>0, \<dots>, i\<close>, summed from the left; \<open>lazy_corrected\<close> is the
  snapshot of particle \<open>i\<close>, with \<open>G * eta / r\<^sup>3\<close> times its position added to its
  acceleration when \<open>i > 1\<close>; \<open>lazy_displaced\<close> is particle \<open>i\<close> moved by \<open>dt\<^sup>2 / 12\<close>
  times the corrected acceleration; \<open>lazy_reset\<close> is particle \<open>i\<close> of \<open>cur\<close> with the
  position of particle \<open>i\<close> of the scratch array.
\<close>

definition on_planets :: "nat \<Rightarrow> (nat \<Rightarrow> 'a) \<Rightarrow> 'a list \<Rightarrow> 'a list" where
  "on_planets n f xs = map (\<lambda>i. if 1 \<le> i \<and> i < n then f i else xs ! i) [0..<length xs]"

definition lazy_eta :: "('d::plus) reb_particle list \<Rightarrow> 'd reb_particle list \<Rightarrow> nat \<Rightarrow> 'd" where
  "lazy_eta ps pj i = foldl (\<lambda>e k. e + m (pj ! k)) (m (ps ! 0)) [1..<Suc i]"

definition lazy_corrected ::
  "('d::{plus,times,uminus,inverse}, 'x) collaborators \<Rightarrow> 'd \<Rightarrow> 'd reb_particle list
   \<Rightarrow> 'd reb_particle list \<Rightarrow> nat \<Rightarrow> 'd reb_particle" where
  "lazy_corrected E G' ps pj i =
    (let s = pj ! i
     in if 1 < i then
          (let r2 = x s * x s + y s * y s + z s * z s;
               k = c_sqrt E (lit E 1 / r2) * (lit E 1 / r2) * G' * lazy_eta ps pj i
           in s\<lparr>ax := ax s + k * x s, ay := ay s + k * y s, az := az s + k * z s\<rparr>)
        else s)"

definition lazy_displaced ::
  "('d::{plus,times,uminus,inverse}, 'x) collaborators \<Rightarrow> 'd \<Rightarrow> 'd \<Rightarrow> 'd reb_particle list
   \<Rightarrow> 'd reb_particle list \<Rightarrow> nat \<Rightarrow> 'd reb_particle" where
  "lazy_displaced E G' h ps pj i =
    (let p = pj ! i;
         c = lazy_corrected E G' ps pj i;
         prefac = h * h / lit E 12
     in p\<lparr>x := x p + prefac * ax c, y := y p + prefac * ay c, z := z p + prefac * az c\<rparr>)"

definition lazy_reset :: "'d reb_particle list \<Rightarrow> 'd reb_particle list \<Rightarrow> nat \<Rightarrow> 'd reb_particle" where
  "lazy_reset cur scratch i =
     (cur ! i)\<lparr>x := x (scratch ! i), y := y (scratch ! i), z := z (scratch ! i)\<rparr>"

text \<open>
  The lazy implementer's kernel in the steps (a) to (f) of the specification, on a
  simulation whose Coordinate Buffer holds \<open>pj\<close>. No kick comes before the correction
  pass: the only kick is the one of step (e).
\<close>

definition lazy_kernel_spec ::
  "('d::{plus,times,uminus,inverse}, 'x) collaborators \<Rightarrow> ('d, 'x) reb_simulation
   \<Rightarrow> 'd reb_particle list \<Rightarrow> ('d, 'x) reb_simulation" where
  "lazy_kernel_spec E r pj =
    (let n = N r;
         h = dt r;
         scratch = (if allocated_N (ri_wkm r) \<noteq> n then c_realloc E (temp_pj (ri_wkm r)) n
                    else temp_pj (ri_wkm r));
         pj1 = reb_transformations_inertial_to_jacobi_acc E (particles r) pj (particles r) n;
         snapshot = memcpy scratch pj1 n;
         corrected = on_planets n (lazy_corrected E (G r) (particles r) pj1) snapshot;
         displaced = on_planets n (lazy_displaced E (G r) h (particles r) pj1) pj1;
         ra = r\<lparr>ri_whfast := (ri_whfast r)\<lparr>p_jh := Some displaced\<rparr>,
                ri_wkm := (ri_wkm r)\<lparr>allocated_N := n, temp_pj := corrected\<rparr>\<rparr>;
         re = run_stages E n ra [Reposition, Reforce, Kick h]
     in re\<lparr>ri_whfast := (ri_whfast re)\<lparr>p_jh :=
            map_option (\<lambda>cur. on_planets n (lazy_reset cur (temp_pj (ri_wkm re))) cur)
              (p_jh (ri_whfast re))\<rparr>\<rparr>)"

text \<open>
  The kernel as it would be with a kick \<open>b\<close> on the accelerations at hand before the
  correction pass.
\<close>

definition lazy_kernel_with_leading_kick ::
  "('d::{plus,times,uminus,inverse}, 'x) collaborators \<Rightarrow> ('d, 'x) reb_simulation \<Rightarrow> 'd
   \<Rightarrow> ('d, 'x) reb_simulation" where
  "lazy_kernel_with_leading_kick E r b =
    (let k = reb_whfast_interaction_step E r b
     in lazy_kernel_spec E k (deref (p_jh (ri_whfast k))))"

section \<open>What the collaborators leave alone\<close>

text \<open>
  The operators receive the whole simulation, so what they do not change is a
  hypothesis about them. \<open>operators_keep E f\<close>: the drift, the kick, the force evaluation
  and the repositioning leave the observation \<open>f\<close> of the simulation as it is.
  \<open>keeps E f\<close>: so do the set-up of WHFast, its conversions from and to inertial
  coordinates, and its corrector whenever the kernel handed to it does.
\<close>

definition operators_keep ::
  "('d, 'x) collaborators \<Rightarrow> (('d, 'x) reb_simulation \<Rightarrow> 'a) \<Rightarrow> bool" where
  "operators_keep E f \<longleftrightarrow>
     (\<forall>r a. f (reb_whfast_kepler_step E r a) = f r) \<and>
     (\<forall>r a. f (reb_whfast_com_step E r a) = f r) \<and>
     (\<forall>r b. f (reb_whfast_interaction_step E r b) = f r) \<and>
     (\<forall>r. f (reb_update_acceleration E r) = f r) \<and>
     (\<forall>r n. f (jacobi_to_inertial_pos E r n) = f r)"

definition correctors_keep ::
  "('d, 'x) collaborators \<Rightarrow> (('d, 'x) reb_simulation \<Rightarrow> 'a) \<Rightarrow> bool" where
  "correctors_keep E f \<longleftrightarrow>
     operators_keep E f \<and>
     (\<forall>r sg k Z. (\<forall>s a b. f (Z s a b) = f s)
         \<longrightarrow> f (reb_whfast_apply_corrector E r sg k Z) = f r)"

definition keeps ::
  "('d, 'x) collaborators \<Rightarrow> (('d, 'x) reb_simulation \<Rightarrow> 'a) \<Rightarrow> bool" where
  "keeps E f \<longleftrightarrow>
     correctors_keep E f \<and>
     (\<forall>r. f (snd (reb_integrator_whfast_init E r)) = f r) \<and>
     (\<forall>r. f (reb_integrator_whfast_from_inertial E r) = f r) \<and>
     (\<forall>r. f (reb_integrator_whfast_to_inertial E r) = f r)"

text \<open>
  \<open>maintains E P\<close>: every collaborator takes a simulation with the property \<open>P\<close> to
  one with the property \<open>P\<close>. Unlike \<open>keeps\<close>, this allows a collaborator to
  establish \<open>P\<close>.
\<close>

definition maintains ::
  "('d, 'x) collaborators \<Rightarrow> (('d, 'x) reb_simulation \<Rightarrow> bool) \<Rightarrow> bool" where
  "maintains E P \<longleftrightarrow>
     (\<forall>r a. P r \<longrightarrow> P (reb_whfast_kepler_step E r a)) \<and>
     (\<forall>r a. P r \<longrightarrow> P (reb_whfast_com_step E r a)) \<and>
     (\<forall>r b. P r \<longrightarrow> P (reb_whfast_interaction_step E r b)) \<and>
     (\<forall>r. P r \<longrightarrow> P (reb_update_acceleration E r)) \<and>
     (\<forall>r n. P r \<longrightarrow> P (jacobi_to_inertial_pos E r n)) \<and>
     (\<forall>r. P r \<longrightarrow> P (snd (reb_integrator_whfast_init E r))) \<and>
     (\<forall>r. P r \<longrightarrow> P (reb_integrator_whfast_from_inertial E r)) \<and>
     (\<forall>r. P r \<longrightarrow> P (reb_integrator_whfast_to_inertial E r)) \<and>
     (\<forall>r sg k Z. (\<forall>s a b. P s \<longrightarrow> P (Z s a b)) \<longrightarrow> P r
         \<longrightarrow> P (reb_whfast_apply_corrector E r sg k Z))"

text \<open>The force evaluator ignores terms, and the coordinates are Jacobi coordinates.\<close>

definition ignoring_terms :: "('d, 'x) reb_simulation \<Rightarrow> bool" where
  "ignoring_terms r \<longleftrightarrow>
     gravity_ignore_terms r = 1 \<and> coordinates (ri_whfast r) = REB_WHFAST_COORDINATES_JACOBI"

section \<open>A small system for the examples\<close>

text \<open>
  The examples run the integrator on three particles over the reals, with
  collaborators that are simple enough to follow by hand and that record every call in
  the field \<open>rest\<close>: the Kepler step moves each Jacobi particle along its velocity,
  the kick adds the acceleration to the velocity, the force is that of a spring, the
  transformations copy the components they are named after, and the corrector of WHFast
  applies the kernel it is given twice.
\<close>

datatype call =
    Call_kepler real | Call_com real | Call_kick real | Call_force
  | Call_init | Call_from_inertial | Call_to_inertial | Call_corrector real int

definition particle_at :: "real \<Rightarrow> real \<Rightarrow> real \<Rightarrow> real \<Rightarrow> real reb_particle" where
  "particle_at mass px py pvy =
     \<lparr>x = px, y = py, z = 0, vx = 0, vy = pvy, vz = 0, ax = 0, ay = 0, az = 0, m = mass\<rparr>"

definition on_p_jh ::
  "(real reb_particle \<Rightarrow> real reb_particle) \<Rightarrow> (real, call list) reb_simulation
   \<Rightarrow> (real, call list) reb_simulation" where
  "on_p_jh f r = r\<lparr>ri_whfast := (ri_whfast r)\<lparr>p_jh := map_option (map f) (p_jh (ri_whfast r))\<rparr>\<rparr>"

definition called :: "call \<Rightarrow> (real, call list) reb_simulation \<Rightarrow> (real, call list) reb_simulation" where
  "called c r = r\<lparr>rest := rest r @ [c]\<rparr>"

definition copy_pos :: "real reb_particle \<Rightarrow> real reb_particle \<Rightarrow> real reb_particle" where
  "copy_pos p q = p\<lparr>x := x q, y := y q, z := z q\<rparr>"

definition copy_vel :: "real reb_particle \<Rightarrow> real reb_particle \<Rightarrow> real reb_particle" where
  "copy_vel p q = p\<lparr>vx := vx q, vy := vy q, vz := vz q\<rparr>"

definition copy_acc :: "real reb_particle \<Rightarrow> real reb_particle \<Rightarrow> real reb_particle" where
  "copy_acc p q = p\<lparr>ax := ax q, ay := ay q, az := az q\<rparr>"

definition toy :: "(real, call list) collaborators" where
  "toy =
    \<lparr>lit = of_rat,
     c_sqrt = sqrt,
     uninitialized = particle_at 0 0 0 0,
     reb_whfast_kepler_step = (\<lambda>r a. called (Call_kepler a)
        (on_p_jh (\<lambda>p. p\<lparr>x := x p + a * vx p, y := y p + a * vy p, z := z p + a * vz p\<rparr>) r)),
     reb_whfast_com_step = (\<lambda>r a. called (Call_com a) r),
     reb_whfast_interaction_step = (\<lambda>r b. called (Call_kick b)
        (on_p_jh (\<lambda>p. p\<lparr>vx := vx p + b * ax p, vy := vy p + b * ay p, vz := vz p + b * az p\<rparr>) r)),
     reb_update_acceleration = (\<lambda>r. called Call_force
        (r\<lparr>particles := map (\<lambda>p. p\<lparr>ax := - x p, ay := - y p, az := - z p\<rparr>) (particles r)\<rparr>)),
     reb_integrator_whfast_init = (\<lambda>r. (if N r = 0 then 1 else 0, called Call_init r)),
     reb_integrator_whfast_from_inertial = (\<lambda>r. called Call_from_inertial
        (r\<lparr>ri_whfast := (ri_whfast r)\<lparr>p_jh := Some (particles r)\<rparr>\<rparr>)),
     reb_integrator_whfast_to_inertial = (\<lambda>r. called Call_to_inertial
        (r\<lparr>particles := map2 copy_vel (map2 copy_pos (particles r) (deref (p_jh (ri_whfast r))))
                             (deref (p_jh (ri_whfast r)))\<rparr>)),
     reb_whfast_apply_corrector = (\<lambda>r sg k Z.
        Z (Z (called (Call_corrector sg k) r) (dt r) (sg * dt r)) (- dt r) (sg * dt r)),
     reb_transformations_jacobi_to_inertial_pos = (\<lambda>ps pj pm n. map2 copy_pos ps (deref pj)),
     reb_transformations_jacobi_to_inertial_posvel = (\<lambda>ps pj pm n.
        map2 copy_vel (map2 copy_pos ps (deref pj)) (deref pj)),
     reb_transformations_inertial_to_jacobi_acc = (\<lambda>ps pj pm n. map2 copy_acc pj ps)\<rparr>"

text \<open>
  A star and two planets, synchronized, in Jacobi coordinates, with the first corrector
  and the composition kernel; \<open>with_wkm\<close> and \<open>with_coordinates\<close> change the
  configuration.
\<close>

definition three_body :: "(real, call list) reb_simulation" where
  "three_body =
    \<lparr>t = 0, G = 1, dt = 1 / 100, dt_last_done = 0, N = 3, var_config_N = 0,
     gravity_ignore_terms = 0,
     particles = [particle_at 1 0 0 0, particle_at (1 / 1000) 1 0 1, particle_at (1 / 1000) 0 2 (1 / 2)],
     ri_whfast = \<lparr>coordinates = REB_WHFAST_COORDINATES_JACOBI,
                  recalculate_coordinates_this_timestep = 0,
                  keep_unsynchronized = 0,
                  p_jh = Some [particle_at 1 0 0 0, particle_at (1 / 1000) 1 0 1,
                               particle_at (1 / 1000) 0 2 (1 / 2)]\<rparr>,
     ri_wkm = \<lparr>corrector = 1, safe_mode = 0, is_synchronized = 1, allocated_N = 0, temp_pj = []\<rparr>,
     rest = []\<rparr>"

definition with_wkm ::
  "int \<Rightarrow> int \<Rightarrow> int \<Rightarrow> ('d, 'x) reb_simulation \<Rightarrow> ('d, 'x) reb_simulation" where
  "with_wkm c safe sync r =
     r\<lparr>ri_wkm := (ri_wkm r)\<lparr>corrector := c, safe_mode := safe, is_synchronized := sync\<rparr>\<rparr>"

definition with_coordinates ::
  "coordinates_t \<Rightarrow> ('d, 'x) reb_simulation \<Rightarrow> ('d, 'x) reb_simulation" where
  "with_coordinates c r = r\<lparr>ri_whfast := (ri_whfast r)\<lparr>coordinates := c\<rparr>\<rparr>"

definition with_keep_unsynchronized ::
  "int \<Rightarrow> ('d, 'x) reb_simulation \<Rightarrow> ('d, 'x) reb_simulation" where
  "with_keep_unsynchronized k r = r\<lparr>ri_whfast := (ri_whfast r)\<lparr>keep_unsynchronized := k\<rparr>\<rparr>"

text \<open>
  The states of the examples: three rejected configurations, the three kernels after
  part 1, an unsynchronized state, and a caller that looks at the synchronized
  particles while keeping the state unsynchronized.
\<close>

definition rejected_variational :: "(real, call list) reb_simulation" where
  "rejected_variational =
     with_coordinates REB_WHFAST_COORDINATES_WHDS (three_body\<lparr>var_config_N := 6\<rparr>)"

definition rejected_coordinates :: "(real, call list) reb_simulation" where
  "rejected_coordinates = with_coordinates REB_WHFAST_COORDINATES_DEMOCRATICHELIOCENTRIC three_body"

definition rejected_kernel :: "(real, call list) reb_simulation" where
  "rejected_kernel = with_wkm 21 1 1 three_body"

definition composition_state :: "(real, call list) reb_simulation" where
  "composition_state = with_wkm 1 0 1 three_body"

definition lazy_state :: "(real, call list) reb_simulation" where
  "lazy_state = with_wkm 11 0 1 three_body"

definition unknown_kernel_state :: "(real, call list) reb_simulation" where
  "unknown_kernel_state = with_wkm 21 0 1 three_body"

definition second_corrector_state :: "(real, call list) reb_simulation" where
  "second_corrector_state = with_wkm 2 0 1 three_body"

definition unsynchronized_state :: "(real, call list) reb_simulation" where
  "unsynchronized_state = with_wkm 2 0 0 three_body"

definition peeking_state :: "(real, call list) reb_simulation" where
  "peeking_state = with_keep_unsynchronized 1 (with_wkm 1 0 0 three_body)"

definition peeking_without_corrector :: "(real, call list) reb_simulation" where
  "peeking_without_corrector = with_keep_unsynchronized 1 (with_wkm 0 0 0 three_body)"

section \<open>Lemmas: what the operators keep\<close>

lemma operators_keep_Z:
  assumes "operators_keep E f"
  shows "f (reb_wkm_corrector_Z E r a b) = f r"
  using assms by (simp add: reb_wkm_corrector_Z_def operators_keep_def Let_def)

lemma operators_keep_C:
  assumes "operators_keep E f"
  shows "f (reb_wkm_apply_C E r a b) = f r"
  using assms by (simp add: reb_wkm_apply_C_def operators_keep_def Let_def)

lemma operators_keep_Y:
  assumes "operators_keep E f"
  shows "f (reb_wkm_apply_Y E r a b) = f r"
  using assms by (simp add: reb_wkm_apply_Y_def operators_keep_C Let_def)

lemma operators_keep_U:
  assumes "operators_keep E f"
  shows "f (reb_wkm_apply_U E r a b) = f r"
  using assms by (simp add: reb_wkm_apply_U_def operators_keep_Y operators_keep_def Let_def)

lemma operators_keep_corrector2:
  assumes "operators_keep E f"
  shows "f (reb_wkm_apply_corrector2 E r h) = f r"
  using assms by (simp add: reb_wkm_apply_corrector2_def operators_keep_U Let_def)

lemma operators_keep_drift:
  assumes "operators_keep E f"
  shows "f (drift E r a) = f r"
  using assms by (simp add: drift_def operators_keep_def)

lemma operators_keep_run_stages:
  assumes "operators_keep E f"
  shows "f (run_stages E n r stages) = f r"
  unfolding run_stages_def
proof (induction stages arbitrary: r)
  case Nil
  show ?case by simp
next
  case (Cons st stages)
  have "f (apply_stage E n r st) = f r"
    using assms by (cases st) (simp_all add: operators_keep_def drift_def)
  with Cons show ?case by simp
qed

lemma correctors_keep_apply_corrector_Z:
  assumes "correctors_keep E f"
  shows "f (reb_whfast_apply_corrector E r sg k (reb_wkm_corrector_Z E)) = f r"
proof -
  from assms have ops: "operators_keep E f" by (simp add: correctors_keep_def)
  have z: "\<forall>s a b. f (reb_wkm_corrector_Z E s a b) = f s"
    using ops by (simp add: operators_keep_Z)
  have "(\<forall>s a b. f (reb_wkm_corrector_Z E s a b) = f s)
         \<longrightarrow> f (reb_whfast_apply_corrector E r sg k (reb_wkm_corrector_Z E)) = f r"
    using assms by (simp add: correctors_keep_def)
  with z show ?thesis by simp
qed

lemma correctors_keep_driver:
  assumes "correctors_keep E f"
  shows "f (corrector_driver E c r sg h) = f r"
proof -
  from assms have ops: "operators_keep E f" by (simp add: correctors_keep_def)
  show ?thesis
    using assms ops
    by (simp add: corrector_driver_def Let_def correctors_keep_apply_corrector_Z operators_keep_U)
qed

lemma maintains_operators:
  assumes "maintains E P"
  shows "\<And>s c. P s \<Longrightarrow> P (reb_whfast_kepler_step E s c)"
    and "\<And>s c. P s \<Longrightarrow> P (reb_whfast_com_step E s c)"
    and "\<And>s c. P s \<Longrightarrow> P (reb_whfast_interaction_step E s c)"
    and "\<And>s. P s \<Longrightarrow> P (reb_update_acceleration E s)"
    and "\<And>s n. P s \<Longrightarrow> P (jacobi_to_inertial_pos E s n)"
  using assms by (simp_all add: maintains_def)

lemma maintains_Z:
  assumes "maintains E P" and "P r"
  shows "P (reb_wkm_corrector_Z E r a b)"
  unfolding reb_wkm_corrector_Z_def Let_def
  by (intro maintains_operators [OF assms(1)] assms(2))

lemma maintains_C:
  assumes "maintains E P" and "P r"
  shows "P (reb_wkm_apply_C E r a b)"
  unfolding reb_wkm_apply_C_def Let_def
  by (intro maintains_operators [OF assms(1)] assms(2))

lemma maintains_Y:
  assumes "maintains E P" and "P r"
  shows "P (reb_wkm_apply_Y E r a b)"
  unfolding reb_wkm_apply_Y_def Let_def
  by (intro maintains_C [OF assms(1)] assms(2))

lemma maintains_U:
  assumes "maintains E P" and "P r"
  shows "P (reb_wkm_apply_U E r a b)"
  unfolding reb_wkm_apply_U_def Let_def
  by (intro maintains_operators(1,2) [OF assms(1)] maintains_Y [OF assms(1)] assms(2))

lemma maintains_corrector2:
  assumes "maintains E P" and "P r"
  shows "P (reb_wkm_apply_corrector2 E r h)"
  unfolding reb_wkm_apply_corrector2_def Let_def
  by (intro maintains_U [OF assms(1)] assms(2))

lemma maintains_apply_corrector_Z:
  assumes "maintains E P" and "P r"
  shows "P (reb_whfast_apply_corrector E r sg k (reb_wkm_corrector_Z E))"
proof -
  have z: "\<forall>s a b. P s \<longrightarrow> P (reb_wkm_corrector_Z E s a b)"
    using assms(1) by (simp add: maintains_Z)
  have "(\<forall>s a b. P s \<longrightarrow> P (reb_wkm_corrector_Z E s a b)) \<longrightarrow> P r
         \<longrightarrow> P (reb_whfast_apply_corrector E r sg k (reb_wkm_corrector_Z E))"
    using assms(1) by (simp add: maintains_def)
  with z assms(2) show ?thesis by simp
qed

section \<open>Lemmas: the parts of a step\<close>

lemma corrector2_eq:
  "reb_wkm_apply_corrector2 E r h =
     reb_wkm_apply_U E
       (reb_wkm_apply_U E r (lit E 0.5 * h)
          (lit E 0.03486083443891981449909050107438281205803 * h))
       (- (lit E 0.5 * h)) (lit E 0.03486083443891981449909050107438281205803 * h)"
  by (simp add: reb_wkm_apply_corrector2_def Let_def)

text \<open>The two layers as the source applies them are the corrector driver.\<close>

lemma driver_eq:
  assumes "correctors_keep E dt"
  shows "(if c \<noteq> 0 then
            (let rz = reb_whfast_apply_corrector E r sg 11 (reb_wkm_corrector_Z E)
             in if 2 \<le> c then reb_wkm_apply_corrector2 E rz (dt rz) else rz)
          else r) = corrector_driver E c r sg (dt r)"
    and "(if c \<noteq> 0 then
            (let rz = reb_whfast_apply_corrector E r sg 11 (reb_wkm_corrector_Z E)
             in if 2 \<le> c then reb_wkm_apply_corrector2 E rz (- dt rz) else rz)
          else r) = corrector_driver E c r sg (- dt r)"
  using correctors_keep_apply_corrector_Z [OF assms]
  by (simp_all add: corrector_driver_def Let_def corrector2_eq)

lemma composition_eq:
  assumes "operators_keep E dt"
  shows "wkm_part2_composition E r n = run_stages E n r (composition_stages E (dt r))"
  using assms
  by (simp add: wkm_part2_composition_def run_stages_def composition_stages_def Let_def
       drift_def operators_keep_def jacobi_to_inertial_pos_def)

text \<open>Part 1 once the checks have passed and WHFast has been set up.\<close>

lemma part1_accepted:
  assumes "coordinates (ri_whfast r) = REB_WHFAST_COORDINATES_JACOBI"
    and "\<not> 1 < corrector (ri_wkm r) sdiv 10"
    and "reb_integrator_whfast_init E (r\<lparr>gravity_ignore_terms := 1\<rparr>) = (0, r1)"
    and "r2 = (if safe_mode (ri_wkm r1) \<noteq> 0
                   \<or> recalculate_coordinates_this_timestep (ri_whfast r1) \<noteq> 0
               then (reb_integrator_whfast_from_inertial E r1)\<lparr>ri_whfast :=
                      (ri_whfast (reb_integrator_whfast_from_inertial E r1))
                        \<lparr>recalculate_coordinates_this_timestep := 0\<rparr>\<rparr>
               else r1)"
    and "correctors_keep E dt"
  shows "reb_integrator_wkm_part1 E r =
     (None, reb_integrator_whfast_to_inertial E
        (if is_synchronized (ri_wkm r2) \<noteq> 0 then
           (let rc = corrector_driver E (corrector (ri_wkm r) smod 10) r2 (lit E 1) (dt r2)
            in if corrector (ri_wkm r) sdiv 10 = 0 then drift E rc (lit E 5 / lit E 8 * dt r2)
               else if corrector (ri_wkm r) sdiv 10 = 1 then drift E rc (lit E 1 / lit E 2 * dt r2)
               else rc)
         else drift E r2 (dt r2)))"
proof -
  from assms(5) have ops: "operators_keep E dt" by (simp add: correctors_keep_def)
  have kep: "\<And>s a. dt (reb_whfast_kepler_step E s a) = dt s"
    using ops by (simp add: operators_keep_def)
  note drv = driver_eq(1) [OF assms(5)]
  show ?thesis
    using assms(1-3) unfolding assms(4)
    by (simp add: reb_integrator_wkm_part1_def Let_def drift_def kep drv
          correctors_keep_driver [OF assms(5)])
qed

lemma part1_setup_keeps:
  assumes "keeps E f"
    and "\<And>s v. f (s\<lparr>ri_whfast := (ri_whfast s)\<lparr>recalculate_coordinates_this_timestep := v\<rparr>\<rparr>) = f s"
    and "\<And>s v. f (s\<lparr>gravity_ignore_terms := v\<rparr>) = f s"
  shows "f (part1_setup E r) = f r"
proof -
  have i: "\<And>s. f (snd (reb_integrator_whfast_init E s)) = f s"
    and fi: "\<And>s. f (reb_integrator_whfast_from_inertial E s) = f s"
    using assms(1) by (simp_all add: keeps_def)
  show ?thesis
    by (simp add: part1_setup_def Let_def i fi assms(2,3))
qed

lemma part1_accepted_entry:
  assumes "coordinates (ri_whfast r) = REB_WHFAST_COORDINATES_JACOBI"
    and "corrector (ri_wkm r) sdiv 10 \<le> 1"
    and "fst (reb_integrator_whfast_init E (r\<lparr>gravity_ignore_terms := 1\<rparr>)) = 0"
    and "keeps E dt"
    and "keeps E (\<lambda>s. is_synchronized (ri_wkm s))"
  shows "reb_integrator_wkm_part1 E r =
     (None, reb_integrator_whfast_to_inertial E
        (if is_synchronized (ri_wkm r) \<noteq> 0 then
           (let rc = corrector_driver E (corrector (ri_wkm r) smod 10) (part1_setup E r)
                       (lit E 1) (dt r)
            in if corrector (ri_wkm r) sdiv 10 = 0 then drift E rc (lit E 5 / lit E 8 * dt r)
               else if corrector (ri_wkm r) sdiv 10 = 1 then drift E rc (lit E 1 / lit E 2 * dt r)
               else rc)
         else drift E (part1_setup E r) (dt r)))"
proof -
  from assms(4) have cor: "correctors_keep E dt" by (simp add: keeps_def)
  obtain r1 where init: "reb_integrator_whfast_init E (r\<lparr>gravity_ignore_terms := 1\<rparr>) = (0, r1)"
    using assms(3) by (cases "reb_integrator_whfast_init E (r\<lparr>gravity_ignore_terms := 1\<rparr>)") simp
  have stp: "part1_setup E r = (if safe_mode (ri_wkm r1) \<noteq> 0
                   \<or> recalculate_coordinates_this_timestep (ri_whfast r1) \<noteq> 0
               then (reb_integrator_whfast_from_inertial E r1)\<lparr>ri_whfast :=
                      (ri_whfast (reb_integrator_whfast_from_inertial E r1))
                        \<lparr>recalculate_coordinates_this_timestep := 0\<rparr>\<rparr>
               else r1)"
    by (simp add: part1_setup_def init Let_def)
  have dt: "dt (part1_setup E r) = dt r"
    by (rule part1_setup_keeps [OF assms(4)]) simp_all
  have sy: "is_synchronized (ri_wkm (part1_setup E r)) = is_synchronized (ri_wkm r)"
    by (rule part1_setup_keeps [OF assms(5)]) simp_all
  from assms(2) have k: "\<not> 1 < corrector (ri_wkm r) sdiv 10" by simp
  show ?thesis
    using part1_accepted [OF assms(1) k init stp cor] by (simp add: dt sy Let_def)
qed

lemma part1_maintains:
  assumes "maintains E P"
    and "\<And>s v. P s \<Longrightarrow>
           P (s\<lparr>ri_whfast := (ri_whfast s)\<lparr>recalculate_coordinates_this_timestep := v\<rparr>\<rparr>)"
    and "P (r\<lparr>gravity_ignore_terms := 1\<rparr>)"
  shows "P (snd (reb_integrator_wkm_part1 E r))"
proof -
  obtain failed r1 where init: "reb_integrator_whfast_init E (r\<lparr>gravity_ignore_terms := 1\<rparr>) = (failed, r1)"
    by (cases "reb_integrator_whfast_init E (r\<lparr>gravity_ignore_terms := 1\<rparr>)")
  have "P (snd (reb_integrator_whfast_init E (r\<lparr>gravity_ignore_terms := 1\<rparr>)))"
    using assms(1,3) by (simp add: maintains_def)
  with init have r1: "P r1" by simp
  have fi: "\<And>s. P s \<Longrightarrow> P (reb_integrator_whfast_from_inertial E s)"
    and ti: "\<And>s. P s \<Longrightarrow> P (reb_integrator_whfast_to_inertial E s)"
    using assms(1) by (simp_all add: maintains_def)
  note kep = maintains_operators(1) [OF assms(1)]
  note com = maintains_operators(2) [OF assms(1)]
  note az = maintains_apply_corrector_Z [OF assms(1)]
  note c2 = maintains_corrector2 [OF assms(1)]
  show ?thesis
    using assms(3) r1
    by (simp add: reb_integrator_wkm_part1_def Let_def init fi ti kep com assms(2) az c2)
qed

lemma memcpy_malloc: "memcpy (c_malloc E n) src n = take n src"
  by (simp add: memcpy_def c_malloc_def)

text \<open>A synchronization of an unsynchronized state, in terms of the synchronized view.\<close>

lemma synchronize_unsynchronized:
  assumes "is_synchronized (ri_wkm r) = 0"
    and "correctors_keep E dt"
    and "correctors_keep E (\<lambda>s. keep_unsynchronized (ri_whfast s))"
  shows "reb_integrator_wkm_synchronize E r =
    (let v = synchronized_view E r
     in if keep_unsynchronized (ri_whfast r) \<noteq> 0 then
          v\<lparr>ri_whfast := (ri_whfast v)\<lparr>p_jh :=
              map_option (\<lambda>dst. memcpy dst (take (N r) (deref (p_jh (ri_whfast r)))) (N v))
                (p_jh (ri_whfast v))\<rparr>\<rparr>
        else v\<lparr>ri_wkm := (ri_wkm v)\<lparr>is_synchronized := 1\<rparr>\<rparr>)"
proof -
  from assms(2) have ops: "operators_keep E dt" by (simp add: correctors_keep_def)
  have kep: "\<And>s a. dt (reb_whfast_kepler_step E s a) = dt s"
    using ops by (simp add: operators_keep_def)
  from assms(3) have opsk: "operators_keep E (\<lambda>s. keep_unsynchronized (ri_whfast s))"
    by (simp add: correctors_keep_def)
  have ku_drift: "\<And>s a. keep_unsynchronized (ri_whfast (drift E s a)) = keep_unsynchronized (ri_whfast s)"
    using operators_keep_drift [OF opsk] by simp
  have dt_drift: "\<And>s a. dt (drift E s a) = dt s"
    using operators_keep_drift [OF ops] by simp
  note drv = driver_eq(2) [OF assms(2)]
  note ku_drv = correctors_keep_driver [OF assms(3)]
  show ?thesis
    using assms(1)
    by (simp add: reb_integrator_wkm_synchronize_def synchronized_view_def Let_def
          drift_def [symmetric] kep drv memcpy_malloc deref_def ku_drv ku_drift dt_drift)
qed

lemma synchronized_view_keeps:
  assumes "correctors_keep E f"
    and "\<And>s v. f (s\<lparr>gravity_ignore_terms := v\<rparr>) = f s"
    and "\<And>s v. f (s\<lparr>particles := v\<rparr>) = f s"
  shows "f (synchronized_view E r) = f r"
proof -
  from assms(1) have ops: "operators_keep E f" by (simp add: correctors_keep_def)
  show ?thesis
    by (simp add: synchronized_view_def Let_def assms(2,3) correctors_keep_driver [OF assms(1)]
          operators_keep_drift [OF ops])
qed

section \<open>Lemmas: the two iterations of the lazy implementer's kernel\<close>

lemma length_on_planets: "length (on_planets n f xs) = length xs"
  by (simp add: on_planets_def)

lemma nth_on_planets:
  "k < length xs \<Longrightarrow> on_planets n f xs ! k = (if 1 \<le> k \<and> k < n then f k else xs ! k)"
  by (simp add: on_planets_def)

lemma on_planets_none: "n \<le> 1 \<Longrightarrow> on_planets n f xs = xs"
  by (rule nth_equalityI) (auto simp add: length_on_planets nth_on_planets)

lemma on_planets_update:
  assumes "1 \<le> i" and "i < length xs \<Longrightarrow> g = f i"
  shows "(on_planets i f xs)[i := g] = on_planets (Suc i) f xs"
proof (rule nth_equalityI)
  show "length ((on_planets i f xs)[i := g]) = length (on_planets (Suc i) f xs)"
    by (simp add: length_on_planets)
next
  fix k assume "k < length ((on_planets i f xs)[i := g])"
  then have k: "k < length xs" by (simp add: length_on_planets)
  show "(on_planets i f xs)[i := g] ! k = on_planets (Suc i) f xs ! k"
  proof (cases "k = i")
    case True
    with k assms show ?thesis by (simp add: length_on_planets nth_on_planets)
  next
    case False
    with k show ?thesis by (auto simp add: length_on_planets nth_on_planets)
  qed
qed

lemma lazy_eta_0: "lazy_eta ps pj 0 = m (ps ! 0)"
  by (simp add: lazy_eta_def)

lemma lazy_eta_step: "1 \<le> i \<Longrightarrow> lazy_eta ps pj i = lazy_eta ps pj (i - 1) + m (pj ! i)"
  by (cases i) (simp_all add: lazy_eta_def)

text \<open>
  The invariant of the first loop: before round \<open>i\<close> the sum is that of the particles
  below \<open>i\<close>, and the particles \<open>1, \<dots>, i - 1\<close> of both arrays have been treated.
\<close>

lemma lazy_round_step:
  assumes "1 \<le> i" and "i < n" and "n \<le> length pj" and "n \<le> length temp"
    and "\<forall>k. 1 \<le> k \<and> k < n \<longrightarrow> temp ! k = pj ! k"
  shows "wkm_lazy_round E G' h i
           (lazy_eta ps pj (i - 1),
            on_planets i (lazy_displaced E G' h ps pj) pj,
            on_planets i (lazy_corrected E G' ps pj) temp)
         = (lazy_eta ps pj i,
            on_planets (Suc i) (lazy_displaced E G' h ps pj) pj,
            on_planets (Suc i) (lazy_corrected E G' ps pj) temp)"
proof -
  from assms have ip: "i < length pj" and it: "i < length temp" and ti: "temp ! i = pj ! i"
    by simp_all
  have pi: "on_planets i (lazy_displaced E G' h ps pj) pj ! i = pj ! i"
    using ip by (simp add: nth_on_planets)
  have tti: "on_planets i (lazy_corrected E G' ps pj) temp ! i = pj ! i"
    using it ti by (simp add: nth_on_planets)
  have eta: "lazy_eta ps pj (i - Suc 0) + m (pj ! i) = lazy_eta ps pj i"
    using assms(1) lazy_eta_step [of i ps pj] by simp
  define temp' where "temp' = (if 1 < i then
        (on_planets i (lazy_corrected E G' ps pj) temp)[i := lazy_corrected E G' ps pj i]
      else on_planets i (lazy_corrected E G' ps pj) temp)"
  have temp': "temp' = on_planets (Suc i) (lazy_corrected E G' ps pj) temp"
  proof (cases "1 < i")
    case True
    then show ?thesis
      unfolding temp'_def using assms(1) by (simp add: on_planets_update)
  next
    case False
    with assms(1) have i1: "i = 1" by simp
    have "lazy_corrected E G' ps pj i = pj ! i"
      using i1 by (simp add: lazy_corrected_def)
    then have "(on_planets i (lazy_corrected E G' ps pj) temp)[i := temp ! i]
               = on_planets (Suc i) (lazy_corrected E G' ps pj) temp"
      using assms(1) ti by (simp add: on_planets_update)
    moreover have "(on_planets i (lazy_corrected E G' ps pj) temp)[i := temp ! i]
                   = on_planets i (lazy_corrected E G' ps pj) temp"
      using it ti tti by (metis list_update_id)
    ultimately show ?thesis unfolding temp'_def using False by simp
  qed
  have tc: "temp' ! i = lazy_corrected E G' ps pj i"
    using it assms(1) by (simp add: temp' nth_on_planets)
  have "wkm_lazy_round E G' h i
           (lazy_eta ps pj (i - 1),
            on_planets i (lazy_displaced E G' h ps pj) pj,
            on_planets i (lazy_corrected E G' ps pj) temp)
        = (lazy_eta ps pj i,
           (on_planets i (lazy_displaced E G' h ps pj) pj)[i := lazy_displaced E G' h ps pj i],
           temp')"
    unfolding temp'_def [symmetric]
    using ip it
    by (simp add: wkm_lazy_round_def Let_def pi tti eta lazy_displaced_def lazy_corrected_def
          temp'_def length_on_planets)
  then show ?thesis
    using assms(1) by (simp add: temp' on_planets_update)
qed

lemma lazy_loop_from:
  assumes "1 \<le> i" and "i \<le> n" and "n \<le> length pj" and "n \<le> length temp"
    and "\<forall>k. 1 \<le> k \<and> k < n \<longrightarrow> temp ! k = pj ! k"
  shows "wkm_lazy_loop E G' h n i
           (lazy_eta ps pj (i - 1),
            on_planets i (lazy_displaced E G' h ps pj) pj,
            on_planets i (lazy_corrected E G' ps pj) temp)
         = (lazy_eta ps pj (n - 1),
            on_planets n (lazy_displaced E G' h ps pj) pj,
            on_planets n (lazy_corrected E G' ps pj) temp)"
  using assms(1,2)
proof (induction "n - i" arbitrary: i)
  case 0
  then have "i = n" by simp
  then show ?case by (simp add: wkm_lazy_loop.simps [of _ _ _ n n])
next
  case (Suc d)
  then have lt: "i < n" and d: "d = n - Suc i" and le: "1 \<le> Suc i" "Suc i \<le> n"
    by simp_all
  have "wkm_lazy_loop E G' h n i
           (lazy_eta ps pj (i - 1),
            on_planets i (lazy_displaced E G' h ps pj) pj,
            on_planets i (lazy_corrected E G' ps pj) temp)
        = wkm_lazy_loop E G' h n (Suc i)
           (lazy_eta ps pj (Suc i - 1),
            on_planets (Suc i) (lazy_displaced E G' h ps pj) pj,
            on_planets (Suc i) (lazy_corrected E G' ps pj) temp)"
    using lt lazy_round_step [OF Suc.prems(1) lt assms(3-5), of E G' h ps]
    by (subst wkm_lazy_loop.simps) simp
  also have "\<dots> = (lazy_eta ps pj (n - 1),
            on_planets n (lazy_displaced E G' h ps pj) pj,
            on_planets n (lazy_corrected E G' ps pj) temp)"
    by (rule Suc.hyps(1) [OF d le])
  finally show ?case .
qed

lemma lazy_loop_closed:
  assumes "n \<le> length pj" and "n \<le> length temp"
    and "\<forall>k. 1 \<le> k \<and> k < n \<longrightarrow> temp ! k = pj ! k"
  shows "wkm_lazy_loop E G' h n 1 (m (ps ! 0), pj, temp)
         = (lazy_eta ps pj (n - 1),
            on_planets n (lazy_displaced E G' h ps pj) pj,
            on_planets n (lazy_corrected E G' ps pj) temp)"
proof (cases "1 \<le> n")
  case True
  have "wkm_lazy_loop E G' h n 1
           (lazy_eta ps pj (1 - 1),
            on_planets 1 (lazy_displaced E G' h ps pj) pj,
            on_planets 1 (lazy_corrected E G' ps pj) temp)
         = (lazy_eta ps pj (n - 1),
            on_planets n (lazy_displaced E G' h ps pj) pj,
            on_planets n (lazy_corrected E G' ps pj) temp)"
    by (rule lazy_loop_from [OF _ True assms]) simp
  then show ?thesis by (simp add: lazy_eta_0 on_planets_none)
next
  case False
  then have "n = 0" by simp
  then show ?thesis
    by (simp add: wkm_lazy_loop.simps [of _ _ _ 0 "Suc 0"] lazy_eta_0 on_planets_none)
qed

lemma reset_loop_from:
  assumes "1 \<le> i" and "i \<le> n"
  shows "wkm_reset_loop n i (on_planets i (lazy_reset p temp) p) temp
         = on_planets n (lazy_reset p temp) p"
  using assms
proof (induction "n - i" arbitrary: i)
  case 0
  then have "i = n" by simp
  then show ?case by (simp add: wkm_reset_loop.simps [of n n])
next
  case (Suc d)
  then have lt: "i < n" and d: "d = n - Suc i" and le: "1 \<le> Suc i" "Suc i \<le> n"
    by simp_all
  have upd: "(on_planets i (lazy_reset p temp) p)
               [i := (on_planets i (lazy_reset p temp) p ! i)
                  \<lparr>x := x (temp ! i), y := y (temp ! i), z := z (temp ! i)\<rparr>]
             = on_planets (Suc i) (lazy_reset p temp) p"
    by (rule on_planets_update [OF Suc.prems(1)]) (simp add: nth_on_planets lazy_reset_def)
  have "wkm_reset_loop n i (on_planets i (lazy_reset p temp) p) temp
        = wkm_reset_loop n (Suc i) (on_planets (Suc i) (lazy_reset p temp) p) temp"
    using lt by (subst wkm_reset_loop.simps) (simp add: upd)
  also have "\<dots> = on_planets n (lazy_reset p temp) p"
    by (rule Suc.hyps(1) [OF d le])
  finally show ?case .
qed

lemma reset_loop_closed:
  "wkm_reset_loop n 1 p temp = on_planets n (lazy_reset p temp) p"
proof (cases "1 \<le> n")
  case True
  have "wkm_reset_loop n 1 (on_planets 1 (lazy_reset p temp) p) temp
        = on_planets n (lazy_reset p temp) p"
    by (rule reset_loop_from [OF _ True]) simp
  then show ?thesis by (simp add: on_planets_none)
next
  case False
  then have "n = 0" by simp
  then show ?thesis by (simp add: wkm_reset_loop.simps [of 0 "Suc 0"] on_planets_none)
qed

lemma nth_memcpy: "k < n \<Longrightarrow> n \<le> length src \<Longrightarrow> memcpy dst src n ! k = src ! k"
  by (simp add: memcpy_def nth_append)

lemma length_memcpy: "n \<le> length src \<Longrightarrow> n \<le> length (memcpy dst src n)"
  by (simp add: memcpy_def)

lemma part2_lazy_eq:
  assumes "N r \<le> length (reb_transformations_inertial_to_jacobi_acc E
                             (particles r) pj (particles r) (N r))"
  shows "wkm_part2_lazy E r pj = lazy_kernel_spec E r pj"
proof -
  define ra where "ra = (if allocated_N (ri_wkm r) \<noteq> N r then
                 r\<lparr>ri_wkm := (ri_wkm r)\<lparr>allocated_N := N r,
                        temp_pj := c_realloc E (temp_pj (ri_wkm r)) (N r)\<rparr>\<rparr>
               else r)"
  define pj1 where "pj1 = reb_transformations_inertial_to_jacobi_acc E
                             (particles r) pj (particles r) (N r)"
  define temp1 where "temp1 = memcpy (temp_pj (ri_wkm ra)) pj1 (N r)"
  have len: "N r \<le> length pj1" using assms by (simp add: pj1_def)
  have copy: "\<forall>k. 1 \<le> k \<and> k < N r \<longrightarrow> temp1 ! k = pj1 ! k"
    using len by (simp add: temp1_def nth_memcpy)
  have lent: "N r \<le> length temp1"
    using len by (simp add: temp1_def length_memcpy)
  note loop = lazy_loop_closed [OF len lent copy, of E "G r" "dt r" "particles r"]
  have ra_simps: "N ra = N r" "particles ra = particles r" "G ra = G r"
    by (simp_all add: ra_def)
  have ra_eq: "ra\<lparr>ri_whfast := (ri_whfast ra)\<lparr>p_jh := Some a\<rparr>,
                  ri_wkm := (ri_wkm ra)\<lparr>temp_pj := b\<rparr>\<rparr>
             = r\<lparr>ri_whfast := (ri_whfast r)\<lparr>p_jh := Some a\<rparr>,
                 ri_wkm := (ri_wkm r)\<lparr>allocated_N := N r, temp_pj := b\<rparr>\<rparr>" for a b
    by (simp add: ra_def)
  have t1: "temp1 = memcpy (if allocated_N (ri_wkm r) \<noteq> N r
                            then c_realloc E (temp_pj (ri_wkm r)) (N r)
                            else temp_pj (ri_wkm r)) pj1 (N r)"
    by (simp add: temp1_def ra_def)
  have "wkm_part2_lazy E r pj =
    (case wkm_lazy_loop E (G r) (dt r) (N r) 1 (m (particles r ! 0), pj1, temp1) of
      (eta', pj2, temp2) \<Rightarrow>
       (let rb = ra\<lparr>ri_whfast := (ri_whfast ra)\<lparr>p_jh := Some pj2\<rparr>,
                    ri_wkm := (ri_wkm ra)\<lparr>temp_pj := temp2\<rparr>\<rparr>;
            rc = jacobi_to_inertial_pos E rb (N r);
            rd = reb_update_acceleration E rc;
            re = reb_whfast_interaction_step E rd (dt r)
        in re\<lparr>ri_whfast := (ri_whfast re)\<lparr>p_jh :=
               map_option (\<lambda>p_j. wkm_reset_loop (N r) 1 p_j (temp_pj (ri_wkm re)))
                 (p_jh (ri_whfast re))\<rparr>\<rparr>))"
    unfolding wkm_part2_lazy_def ra_def [symmetric] Let_def ra_simps
      pj1_def [symmetric] temp1_def [symmetric] ..
  also have "\<dots> = lazy_kernel_spec E r pj"
    unfolding loop
    by (simp add: lazy_kernel_spec_def Let_def ra_eq t1 [symmetric] pj1_def [symmetric]
          run_stages_def reset_loop_closed [unfolded One_nat_def])
  finally show ?thesis .
qed

lemma lazy_corrected_pos:
  "x (lazy_corrected E G' ps pj i) = x (pj ! i)"
  "y (lazy_corrected E G' ps pj i) = y (pj ! i)"
  "z (lazy_corrected E G' ps pj i) = z (pj ! i)"
  by (simp_all add: lazy_corrected_def Let_def)

section \<open>Lemmas: the example system\<close>

lemmas toy_defs = toy_def called_def on_p_jh_def jacobi_to_inertial_pos_def

lemmas example_defs = three_body_def with_wkm_def with_coordinates_def
  with_keep_unsynchronized_def particle_at_def

lemmas state_defs = rejected_variational_def rejected_coordinates_def rejected_kernel_def
  composition_state_def lazy_state_def unknown_kernel_state_def second_corrector_state_def
  unsynchronized_state_def peeking_state_def peeking_without_corrector_def

lemmas c_division = signed_divide_int_def signed_modulo_int_def

lemma toy_operators_keep_t: "operators_keep toy t"
  by (simp add: operators_keep_def toy_defs)

lemma toy_operators_keep_dt: "operators_keep toy dt"
  by (simp add: operators_keep_def toy_defs)

lemma toy_keeps_dt: "keeps toy dt"
  by (simp add: keeps_def correctors_keep_def operators_keep_def toy_defs)

lemma toy_keeps_sync: "keeps toy (\<lambda>s. is_synchronized (ri_wkm s))"
  by (simp add: keeps_def correctors_keep_def operators_keep_def toy_defs)

lemma toy_correctors_keep_N: "correctors_keep toy N"
  by (simp add: keeps_def correctors_keep_def operators_keep_def toy_defs)

lemma toy_correctors_keep_ku: "correctors_keep toy (\<lambda>s. keep_unsynchronized (ri_whfast s))"
  by (simp add: keeps_def correctors_keep_def operators_keep_def toy_defs)

lemma toy_correctors_keep_len: "correctors_keep toy (\<lambda>s. map_option length (p_jh (ri_whfast s)))"
  by (simp add: keeps_def correctors_keep_def operators_keep_def toy_defs option.map_comp comp_def)

lemma toy_operators_keep_temp: "operators_keep toy (\<lambda>s. temp_pj (ri_wkm s))"
  by (simp add: operators_keep_def toy_defs)

lemma toy_maintains_ignoring_terms: "maintains toy ignoring_terms"
  by (simp add: maintains_def ignoring_terms_def toy_defs)

lemma toy_init_three_body:
  "fst (reb_integrator_whfast_init toy (with_wkm c s v three_body\<lparr>gravity_ignore_terms := 1\<rparr>)) = 0"
  by (simp add: toy_def called_def example_defs)

section \<open>Rejected configurations\<close>

text \<open>
  Claim C1, amended. A call of part 1 that is rejected for its configuration
  (variational particles without Jacobi coordinates, a coordinate scheme other than
  Jacobi, or a kernel digit above 1) reports the error and returns at once. It has set
  \<open>gravity_ignore_terms\<close> to 1 and has changed nothing else: \<open>t\<close>, \<open>dt_last_done\<close>, the
  particles and every other field are as before, and no collaborator has been called,
  so no drift and no kick has been applied.
\<close>

theorem part1_rejection:
  "(0 < var_config_N r \<and> coordinates (ri_whfast r) \<noteq> REB_WHFAST_COORDINATES_JACOBI \<longrightarrow>
      reb_integrator_wkm_part1 E r =
        (Some (Reb_error ''Variational particles are not supported in the WKM integrator.''),
         r\<lparr>gravity_ignore_terms := 1\<rparr>))
   \<and> (\<not> 0 < var_config_N r \<and> coordinates (ri_whfast r) \<noteq> REB_WHFAST_COORDINATES_JACOBI \<longrightarrow>
      reb_integrator_wkm_part1 E r =
        (Some (Reb_error
           ''WKM integrator requires ri_whfast.coordinates to be set to Jacobi coordinates.''),
         r\<lparr>gravity_ignore_terms := 1\<rparr>))
   \<and> (coordinates (ri_whfast r) = REB_WHFAST_COORDINATES_JACOBI \<and> 1 < corrector (ri_wkm r) sdiv 10 \<longrightarrow>
      reb_integrator_wkm_part1 E r =
        (Some (Reb_error ''WKM Kernel not implemented''), r\<lparr>gravity_ignore_terms := 1\<rparr>))"
  by (simp add: reb_integrator_wkm_part1_def Let_def)

theorem part1_rejection_witness:
  "reb_integrator_wkm_part1 toy rejected_variational =
     (Some (Reb_error ''Variational particles are not supported in the WKM integrator.''),
      rejected_variational\<lparr>gravity_ignore_terms := 1\<rparr>)
   \<and> reb_integrator_wkm_part1 toy rejected_coordinates =
     (Some (Reb_error
        ''WKM integrator requires ri_whfast.coordinates to be set to Jacobi coordinates.''),
      rejected_coordinates\<lparr>gravity_ignore_terms := 1\<rparr>)
   \<and> reb_integrator_wkm_part1 toy rejected_kernel =
     (Some (Reb_error ''WKM Kernel not implemented''), rejected_kernel\<lparr>gravity_ignore_terms := 1\<rparr>)"
proof -
  have a: "0 < var_config_N rejected_variational
      \<and> coordinates (ri_whfast rejected_variational) \<noteq> REB_WHFAST_COORDINATES_JACOBI"
    by (simp add: state_defs example_defs)
  have b: "\<not> 0 < var_config_N rejected_coordinates
      \<and> coordinates (ri_whfast rejected_coordinates) \<noteq> REB_WHFAST_COORDINATES_JACOBI"
    by (simp add: state_defs example_defs)
  have c: "coordinates (ri_whfast rejected_kernel) = REB_WHFAST_COORDINATES_JACOBI
      \<and> 1 < corrector (ri_wkm rejected_kernel) sdiv 10"
    by (simp add: state_defs example_defs c_division)
  show ?thesis
    using part1_rejection [of rejected_variational toy] part1_rejection [of rejected_coordinates toy]
      part1_rejection [of rejected_kernel toy] a b c
    by blast
qed

text \<open>
  The rejection does not leave the whole state as it was: the flag for the force
  evaluator, 0 before the call, is 1 after it.
\<close>

theorem part1_rejection_counterexample:
  "fst (reb_integrator_wkm_part1 toy rejected_coordinates) =
     Some (Reb_error
        ''WKM integrator requires ri_whfast.coordinates to be set to Jacobi coordinates.'')
   \<and> gravity_ignore_terms rejected_coordinates = 0
   \<and> gravity_ignore_terms (snd (reb_integrator_wkm_part1 toy rejected_coordinates)) = 1
   \<and> snd (reb_integrator_wkm_part1 toy rejected_coordinates) \<noteq> rejected_coordinates"
proof -
  have "gravity_ignore_terms (snd (reb_integrator_wkm_part1 toy rejected_coordinates))
        \<noteq> gravity_ignore_terms rejected_coordinates"
    by (simp add: reb_integrator_wkm_part1_def Let_def state_defs example_defs)
  then have "snd (reb_integrator_wkm_part1 toy rejected_coordinates) \<noteq> rejected_coordinates"
    by auto
  then show ?thesis
    by (simp add: reb_integrator_wkm_part1_def Let_def state_defs example_defs)
qed

text \<open>
  Claim C10. Part 1 sets \<open>gravity_ignore_terms\<close> to 1 before it checks anything: a call
  behaves as a call on the simulation with the flag set; a rejected call returns that
  simulation; and the flag is 1 after every call, rejected or not, when the
  collaborators that an accepted call runs maintain it under Jacobi coordinates.
\<close>

theorem part1_sets_gravity_ignore_terms:
  "reb_integrator_wkm_part1 E r = reb_integrator_wkm_part1 E (r\<lparr>gravity_ignore_terms := 1\<rparr>)
   \<and> (coordinates (ri_whfast r) \<noteq> REB_WHFAST_COORDINATES_JACOBI \<or> 1 < corrector (ri_wkm r) sdiv 10
        \<longrightarrow> snd (reb_integrator_wkm_part1 E r) = r\<lparr>gravity_ignore_terms := 1\<rparr>)
   \<and> (maintains E ignoring_terms
        \<longrightarrow> gravity_ignore_terms (snd (reb_integrator_wkm_part1 E r)) = 1)"
proof (intro conjI impI)
  show "reb_integrator_wkm_part1 E r = reb_integrator_wkm_part1 E (r\<lparr>gravity_ignore_terms := 1\<rparr>)"
    by (simp add: reb_integrator_wkm_part1_def)
next
  assume "coordinates (ri_whfast r) \<noteq> REB_WHFAST_COORDINATES_JACOBI \<or> 1 < corrector (ri_wkm r) sdiv 10"
  then show "snd (reb_integrator_wkm_part1 E r) = r\<lparr>gravity_ignore_terms := 1\<rparr>"
    by (auto simp add: reb_integrator_wkm_part1_def Let_def)
next
  assume k: "maintains E ignoring_terms"
  show "gravity_ignore_terms (snd (reb_integrator_wkm_part1 E r)) = 1"
  proof (cases "coordinates (ri_whfast r) = REB_WHFAST_COORDINATES_JACOBI")
    case True
    then have "ignoring_terms (r\<lparr>gravity_ignore_terms := 1\<rparr>)"
      by (simp add: ignoring_terms_def)
    then have "ignoring_terms (snd (reb_integrator_wkm_part1 E r))"
      by (intro part1_maintains [OF k]) (simp_all add: ignoring_terms_def)
    then show ?thesis by (simp add: ignoring_terms_def)
  next
    case False
    then show ?thesis by (simp add: reb_integrator_wkm_part1_def Let_def)
  qed
qed

theorem part1_sets_gravity_ignore_terms_witness:
  "1 < corrector (ri_wkm rejected_kernel) sdiv 10
   \<and> gravity_ignore_terms rejected_kernel = 0
   \<and> gravity_ignore_terms (snd (reb_integrator_wkm_part1 toy rejected_kernel)) = 1
   \<and> maintains toy ignoring_terms
   \<and> fst (reb_integrator_wkm_part1 toy three_body) = None
   \<and> gravity_ignore_terms three_body = 0
   \<and> gravity_ignore_terms (snd (reb_integrator_wkm_part1 toy three_body)) = 1"
proof -
  have a: "1 < corrector (ri_wkm rejected_kernel) sdiv 10"
    and b: "gravity_ignore_terms rejected_kernel = 0"
    and c: "gravity_ignore_terms three_body = 0"
    by (simp_all add: state_defs example_defs c_division)
  have d: "fst (reb_integrator_wkm_part1 toy three_body) = None"
    by (simp add: reb_integrator_wkm_part1_def Let_def three_body_def toy_def called_def
          c_division split_beta)
  have "snd (reb_integrator_wkm_part1 toy rejected_kernel)
        = rejected_kernel\<lparr>gravity_ignore_terms := 1\<rparr>"
    using part1_sets_gravity_ignore_terms [of toy rejected_kernel] a by blast
  then have e: "gravity_ignore_terms (snd (reb_integrator_wkm_part1 toy rejected_kernel)) = 1"
    by simp
  show ?thesis
    using part1_sets_gravity_ignore_terms [of toy three_body] toy_maintains_ignoring_terms
      a b c d e
    by blast
qed

section \<open>The corrector kernel and the corrector driver\<close>

text \<open>
  Claim C6. For all coefficients \<open>a\<close> and \<open>b\<close> the corrector kernel \<open>Z\<close> is the sequence
  orbital drift \<open>a\<close>, reposition, reforce, kick \<open>-b\<close>, orbital drift \<open>-2a\<close>, reposition,
  reforce, kick \<open>b\<close>, orbital drift \<open>a\<close>, and nothing else: whatever these operators
  leave alone, \<open>Z\<close> leaves alone.
\<close>

theorem corrector_Z_sequence:
  "reb_wkm_corrector_Z E r a b = run_stages E (N r) r (corrector_Z_stages E a b)
   \<and> (operators_keep E f \<longrightarrow> f (reb_wkm_corrector_Z E r a b) = f r)"
  by (simp add: reb_wkm_corrector_Z_def run_stages_def corrector_Z_stages_def Let_def
        operators_keep_def)

theorem corrector_Z_sequence_witness:
  "operators_keep toy t
   \<and> t (reb_wkm_corrector_Z toy three_body (1 / 2) (1 / 3)) = t three_body
   \<and> rest (reb_wkm_corrector_Z toy three_body (1 / 2) (1 / 3)) =
       [Call_kepler (1 / 2), Call_force, Call_kick (- (1 / 3)),
        Call_kepler (- 1), Call_force, Call_kick (1 / 3), Call_kepler (1 / 2)]"
proof -
  have k: "operators_keep toy t" by (rule toy_operators_keep_t)
  have e: "reb_wkm_corrector_Z toy three_body (1 / 2) (1 / 3)
           = run_stages toy (N three_body) three_body (corrector_Z_stages toy (1 / 2) (1 / 3))"
    and f: "t (reb_wkm_corrector_Z toy three_body (1 / 2) (1 / 3)) = t three_body"
    using corrector_Z_sequence [of toy three_body "1 / 2" "1 / 3" t] k by blast+
  have "rest (run_stages toy (N three_body) three_body (corrector_Z_stages toy (1 / 2) (1 / 3))) =
       [Call_kepler (1 / 2), Call_force, Call_kick (- (1 / 3)),
        Call_kepler (- 1), Call_force, Call_kick (1 / 3), Call_kepler (1 / 2)]"
    by (simp add: run_stages_def corrector_Z_stages_def toy_defs three_body_def)
  with k e f show ?thesis by simp
qed

text \<open>
  Claim C5. The second layer of the corrector driver is \<open>U(a,b)\<close> followed by \<open>U(-a,b)\<close>
  with \<open>a = 0.5 * h\<close> and \<open>b = 0.03486083443891981449909050107438281205803 * h\<close>.
  Part 1, on a synchronized state, applies the corrector of order 11 built from \<open>Z\<close> with
  the sign \<open>1\<close> whenever the corrector digit is not 0, and then the second layer with
  \<open>h = dt\<close> whenever the digit is at least 2, before its leading drift. A
  synchronization of an unsynchronized state applies, after its trailing drift, the same
  two layers in the same order with the sign \<open>-1\<close> and with \<open>h = -dt\<close>, and converts
  the result to the inertial particles.
\<close>

theorem corrector_layers:
  "reb_wkm_apply_corrector2 E r h =
     reb_wkm_apply_U E
       (reb_wkm_apply_U E r (lit E 0.5 * h)
          (lit E 0.03486083443891981449909050107438281205803 * h))
       (- (lit E 0.5 * h)) (lit E 0.03486083443891981449909050107438281205803 * h)
   \<and> (coordinates (ri_whfast r) = REB_WHFAST_COORDINATES_JACOBI
        \<and> corrector (ri_wkm r) sdiv 10 \<le> 1
        \<and> fst (reb_integrator_whfast_init E (r\<lparr>gravity_ignore_terms := 1\<rparr>)) = 0
        \<and> keeps E dt \<and> keeps E (\<lambda>s. is_synchronized (ri_wkm s))
        \<and> is_synchronized (ri_wkm r) \<noteq> 0 \<longrightarrow>
      reb_integrator_wkm_part1 E r =
        (None, reb_integrator_whfast_to_inertial E
           (let c = corrector (ri_wkm r) smod 10;
                kernel = corrector (ri_wkm r) sdiv 10;
                s = part1_setup E r;
                z = reb_whfast_apply_corrector E s (lit E 1) 11 (reb_wkm_corrector_Z E);
                rc = (if c = 0 then s
                      else if 2 \<le> c then reb_wkm_apply_corrector2 E z (dt r) else z)
            in if kernel = 0 then drift E rc (lit E 5 / lit E 8 * dt r)
               else if kernel = 1 then drift E rc (lit E 1 / lit E 2 * dt r)
               else rc)))
   \<and> (is_synchronized (ri_wkm r) = 0 \<and> correctors_keep E dt \<longrightarrow>
      particles (reb_integrator_wkm_synchronize E r) =
        (let c = corrector (ri_wkm r) smod 10;
             kernel = corrector (ri_wkm r) sdiv 10;
             r0 = r\<lparr>gravity_ignore_terms := 1\<rparr>;
             s = (if kernel = 0 then drift E r0 (lit E 3 / lit E 8 * dt r)
                  else if kernel = 1 then drift E r0 (lit E 1 / lit E 2 * dt r)
                  else r0);
             z = reb_whfast_apply_corrector E s (- lit E 1) 11 (reb_wkm_corrector_Z E);
             rc = (if c = 0 then s
                   else if 2 \<le> c then reb_wkm_apply_corrector2 E z (- dt r) else z)
         in reb_transformations_jacobi_to_inertial_posvel E
              (particles rc) (p_jh (ri_whfast rc)) (particles rc) (N r)))"
proof (intro conjI impI)
  show "reb_wkm_apply_corrector2 E r h =
     reb_wkm_apply_U E
       (reb_wkm_apply_U E r (lit E 0.5 * h)
          (lit E 0.03486083443891981449909050107438281205803 * h))
       (- (lit E 0.5 * h)) (lit E 0.03486083443891981449909050107438281205803 * h)"
    by (rule corrector2_eq)
next
  assume a: "coordinates (ri_whfast r) = REB_WHFAST_COORDINATES_JACOBI
        \<and> corrector (ri_wkm r) sdiv 10 \<le> 1
        \<and> fst (reb_integrator_whfast_init E (r\<lparr>gravity_ignore_terms := 1\<rparr>)) = 0
        \<and> keeps E dt \<and> keeps E (\<lambda>s. is_synchronized (ri_wkm s))
        \<and> is_synchronized (ri_wkm r) \<noteq> 0"
  then have kdt: "keeps E dt" and ksy: "keeps E (\<lambda>s. is_synchronized (ri_wkm s))" by simp_all
  from kdt have cor: "correctors_keep E dt" by (simp add: keeps_def)
  have dz: "dt (reb_whfast_apply_corrector E s sg k (reb_wkm_corrector_Z E)) = dt s" for s sg k
    by (rule correctors_keep_apply_corrector_Z [OF cor])
  have dts: "dt (part1_setup E r) = dt r"
    by (rule part1_setup_keeps [OF kdt]) simp_all
  show "reb_integrator_wkm_part1 E r =
        (None, reb_integrator_whfast_to_inertial E
           (let c = corrector (ri_wkm r) smod 10;
                kernel = corrector (ri_wkm r) sdiv 10;
                s = part1_setup E r;
                z = reb_whfast_apply_corrector E s (lit E 1) 11 (reb_wkm_corrector_Z E);
                rc = (if c = 0 then s
                      else if 2 \<le> c then reb_wkm_apply_corrector2 E z (dt r) else z)
            in if kernel = 0 then drift E rc (lit E 5 / lit E 8 * dt r)
               else if kernel = 1 then drift E rc (lit E 1 / lit E 2 * dt r)
               else rc))"
    using a part1_accepted_entry [of r E]
    by (simp add: Let_def corrector_driver_def corrector2_eq dts)
next
  assume a: "is_synchronized (ri_wkm r) = 0 \<and> correctors_keep E dt"
  then have cor: "correctors_keep E dt" by simp
  then have ops: "operators_keep E dt" by (simp add: correctors_keep_def)
  have kep: "\<And>s a. dt (reb_whfast_kepler_step E s a) = dt s"
    using ops by (simp add: operators_keep_def)
  have dz: "dt (reb_whfast_apply_corrector E s sg k (reb_wkm_corrector_Z E)) = dt s" for s sg k
    by (rule correctors_keep_apply_corrector_Z [OF cor])
  have dd: "dt (drift E s a) = dt s" for s a
    by (rule operators_keep_drift [OF ops])
  show "particles (reb_integrator_wkm_synchronize E r) =
        (let c = corrector (ri_wkm r) smod 10;
             kernel = corrector (ri_wkm r) sdiv 10;
             r0 = r\<lparr>gravity_ignore_terms := 1\<rparr>;
             s = (if kernel = 0 then drift E r0 (lit E 3 / lit E 8 * dt r)
                  else if kernel = 1 then drift E r0 (lit E 1 / lit E 2 * dt r)
                  else r0);
             z = reb_whfast_apply_corrector E s (- lit E 1) 11 (reb_wkm_corrector_Z E);
             rc = (if c = 0 then s
                   else if 2 \<le> c then reb_wkm_apply_corrector2 E z (- dt r) else z)
         in reb_transformations_jacobi_to_inertial_posvel E
              (particles rc) (p_jh (ri_whfast rc)) (particles rc) (N r))"
    using a
    by (simp add: reb_integrator_wkm_synchronize_def Let_def drift_def [symmetric] kep dz dd)
qed

theorem corrector_layers_witness:
  "coordinates (ri_whfast second_corrector_state) = REB_WHFAST_COORDINATES_JACOBI
   \<and> corrector (ri_wkm second_corrector_state) sdiv 10 \<le> 1
   \<and> fst (reb_integrator_whfast_init toy (second_corrector_state\<lparr>gravity_ignore_terms := 1\<rparr>)) = 0
   \<and> keeps toy dt \<and> keeps toy (\<lambda>s. is_synchronized (ri_wkm s))
   \<and> is_synchronized (ri_wkm second_corrector_state) \<noteq> 0
   \<and> reb_integrator_wkm_part1 toy second_corrector_state =
       (None, reb_integrator_whfast_to_inertial toy
          (drift toy
             (reb_wkm_apply_corrector2 toy
                (reb_whfast_apply_corrector toy (part1_setup toy second_corrector_state) 1 11
                   (reb_wkm_corrector_Z toy))
                (1 / 100))
             (1 / 160)))
   \<and> is_synchronized (ri_wkm unsynchronized_state) = 0
   \<and> correctors_keep toy dt
   \<and> particles (reb_integrator_wkm_synchronize toy unsynchronized_state) =
       (let rc = reb_wkm_apply_corrector2 toy
                   (reb_whfast_apply_corrector toy
                      (drift toy (unsynchronized_state\<lparr>gravity_ignore_terms := 1\<rparr>) (3 / 800))
                      (- 1) 11 (reb_wkm_corrector_Z toy))
                   (- (1 / 100))
        in reb_transformations_jacobi_to_inertial_posvel toy
             (particles rc) (p_jh (ri_whfast rc)) (particles rc) 3)"
proof -
  have a: "coordinates (ri_whfast second_corrector_state) = REB_WHFAST_COORDINATES_JACOBI
   \<and> corrector (ri_wkm second_corrector_state) sdiv 10 \<le> 1
   \<and> fst (reb_integrator_whfast_init toy (second_corrector_state\<lparr>gravity_ignore_terms := 1\<rparr>)) = 0
   \<and> keeps toy dt \<and> keeps toy (\<lambda>s. is_synchronized (ri_wkm s))
   \<and> is_synchronized (ri_wkm second_corrector_state) \<noteq> 0"
    using toy_keeps_dt toy_keeps_sync
    by (simp add: toy_init_three_body state_defs) (simp add: example_defs c_division)
  have cor: "correctors_keep toy dt" using toy_keeps_dt by (simp add: keeps_def)
  have b: "is_synchronized (ri_wkm unsynchronized_state) = 0 \<and> correctors_keep toy dt"
    using cor by (simp add: state_defs example_defs)
  have d: "corrector (ri_wkm second_corrector_state) = 2" "dt second_corrector_state = 1 / 100"
    "corrector (ri_wkm unsynchronized_state) = 2" "dt unsynchronized_state = 1 / 100"
    "N unsynchronized_state = 3" "lit toy = of_rat"
    by (simp_all add: state_defs example_defs toy_def)
  note inst = corrector_layers [of toy second_corrector_state "dt second_corrector_state"]
    corrector_layers [of toy unsynchronized_state "dt unsynchronized_state"]
  have p1: "reb_integrator_wkm_part1 toy second_corrector_state =
       (None, reb_integrator_whfast_to_inertial toy
          (drift toy
             (reb_wkm_apply_corrector2 toy
                (reb_whfast_apply_corrector toy (part1_setup toy second_corrector_state) 1 11
                   (reb_wkm_corrector_Z toy))
                (1 / 100))
             (1 / 160)))"
    using inst(1) a by (simp add: d c_division Let_def)
  have p2: "particles (reb_integrator_wkm_synchronize toy unsynchronized_state) =
       (let rc = reb_wkm_apply_corrector2 toy
                   (reb_whfast_apply_corrector toy
                      (drift toy (unsynchronized_state\<lparr>gravity_ignore_terms := 1\<rparr>) (3 / 800))
                      (- 1) 11 (reb_wkm_corrector_Z toy))
                   (- (1 / 100))
        in reb_transformations_jacobi_to_inertial_posvel toy
             (particles rc) (p_jh (ri_whfast rc)) (particles rc) 3)"
    using inst(2) b by (simp add: d c_division Let_def)
  from a b p1 p2 show ?thesis by blast
qed

section \<open>Part 1\<close>

text \<open>
  Claim C7. Once the checks of part 1 have passed: on a synchronized state the
  corrector driver is applied and then the leading drift of the kernel, a drift with
  its centre-of-mass drift by \<open>5/8 * dt\<close> for the kernel 0 and by \<open>1/2 * dt\<close> for the
  kernel 1; on an unsynchronized state there is no corrector and one drift with its
  centre-of-mass drift by \<open>dt\<close>; in both cases the Coordinate Buffer is converted to
  inertial coordinates at the end. The collaborators are supposed to leave \<open>dt\<close> and
  \<open>is_synchronized\<close> alone.
\<close>

theorem part1_drifts:
  assumes "coordinates (ri_whfast r) = REB_WHFAST_COORDINATES_JACOBI"
    and "corrector (ri_wkm r) sdiv 10 \<le> 1"
    and "fst (reb_integrator_whfast_init E (r\<lparr>gravity_ignore_terms := 1\<rparr>)) = 0"
    and "keeps E dt"
    and "keeps E (\<lambda>s. is_synchronized (ri_wkm s))"
  shows "reb_integrator_wkm_part1 E r =
     (None, reb_integrator_whfast_to_inertial E
        (if is_synchronized (ri_wkm r) \<noteq> 0 then
           (let rc = corrector_driver E (corrector (ri_wkm r) smod 10) (part1_setup E r)
                       (lit E 1) (dt r)
            in if corrector (ri_wkm r) sdiv 10 = 0 then drift E rc (lit E 5 / lit E 8 * dt r)
               else if corrector (ri_wkm r) sdiv 10 = 1 then drift E rc (lit E 1 / lit E 2 * dt r)
               else rc)
         else drift E (part1_setup E r) (dt r)))"
  by (rule part1_accepted_entry [OF assms])

theorem part1_drifts_witness:
  "coordinates (ri_whfast three_body) = REB_WHFAST_COORDINATES_JACOBI
   \<and> corrector (ri_wkm three_body) sdiv 10 \<le> 1
   \<and> fst (reb_integrator_whfast_init toy (three_body\<lparr>gravity_ignore_terms := 1\<rparr>)) = 0
   \<and> keeps toy dt
   \<and> keeps toy (\<lambda>s. is_synchronized (ri_wkm s))
   \<and> reb_integrator_wkm_part1 toy three_body =
       (None, reb_integrator_whfast_to_inertial toy
          (drift toy (corrector_driver toy 1 (part1_setup toy three_body) 1 (1 / 100)) (1 / 160)))"
proof -
  have a: "coordinates (ri_whfast three_body) = REB_WHFAST_COORDINATES_JACOBI"
    and b: "corrector (ri_wkm three_body) sdiv 10 \<le> 1"
    and c: "fst (reb_integrator_whfast_init toy (three_body\<lparr>gravity_ignore_terms := 1\<rparr>)) = 0"
    by (simp_all add: toy_def called_def example_defs c_division)
  have d: "is_synchronized (ri_wkm three_body) = 1" "corrector (ri_wkm three_body) = 1"
    "dt three_body = 1 / 100" "lit toy = of_rat"
    by (simp_all add: three_body_def toy_def)
  show ?thesis
    using part1_drifts [OF a b c toy_keeps_dt toy_keeps_sync] a b c toy_keeps_dt toy_keeps_sync
    by (simp add: d c_division Let_def)
qed

section \<open>Synchronization\<close>

text \<open>
  Claim C8. A synchronization does nothing on a synchronized state. On an
  unsynchronized state it computes the synchronized view: the trailing drift of the
  kernel (\<open>3/8 * dt\<close> for the kernel 0, \<open>1/2 * dt\<close> for the kernel 1, with the
  centre-of-mass drift), the corrector driver with the sign and the step inverted, and
  the conversion to inertial positions and velocities. Without the keep-unsynchronized
  policy it then sets \<open>is_synchronized\<close> to 1; with the policy it puts the snapshot of
  the Coordinate Buffer back instead.
\<close>

theorem synchronize_steps:
  "(is_synchronized (ri_wkm r) \<noteq> 0 \<longrightarrow> reb_integrator_wkm_synchronize E r = r)
   \<and> (is_synchronized (ri_wkm r) = 0 \<and> correctors_keep E dt
        \<and> correctors_keep E (\<lambda>s. keep_unsynchronized (ri_whfast s)) \<longrightarrow>
      reb_integrator_wkm_synchronize E r =
        (let v = synchronized_view E r
         in if keep_unsynchronized (ri_whfast r) \<noteq> 0 then
              v\<lparr>ri_whfast := (ri_whfast v)\<lparr>p_jh :=
                  map_option (\<lambda>dst. memcpy dst (take (N r) (deref (p_jh (ri_whfast r)))) (N v))
                    (p_jh (ri_whfast v))\<rparr>\<rparr>
            else v\<lparr>ri_wkm := (ri_wkm v)\<lparr>is_synchronized := 1\<rparr>\<rparr>))"
proof (intro conjI impI)
  assume "is_synchronized (ri_wkm r) \<noteq> 0"
  then show "reb_integrator_wkm_synchronize E r = r"
    by (simp add: reb_integrator_wkm_synchronize_def)
next
  assume "is_synchronized (ri_wkm r) = 0 \<and> correctors_keep E dt
        \<and> correctors_keep E (\<lambda>s. keep_unsynchronized (ri_whfast s))"
  then show "reb_integrator_wkm_synchronize E r =
        (let v = synchronized_view E r
         in if keep_unsynchronized (ri_whfast r) \<noteq> 0 then
              v\<lparr>ri_whfast := (ri_whfast v)\<lparr>p_jh :=
                  map_option (\<lambda>dst. memcpy dst (take (N r) (deref (p_jh (ri_whfast r)))) (N v))
                    (p_jh (ri_whfast v))\<rparr>\<rparr>
            else v\<lparr>ri_wkm := (ri_wkm v)\<lparr>is_synchronized := 1\<rparr>\<rparr>)"
    using synchronize_unsynchronized by blast
qed

theorem synchronize_steps_witness:
  "is_synchronized (ri_wkm three_body) \<noteq> 0
   \<and> reb_integrator_wkm_synchronize toy three_body = three_body
   \<and> is_synchronized (ri_wkm unsynchronized_state) = 0
   \<and> correctors_keep toy dt
   \<and> correctors_keep toy (\<lambda>s. keep_unsynchronized (ri_whfast s))
   \<and> keep_unsynchronized (ri_whfast unsynchronized_state) = 0
   \<and> reb_integrator_wkm_synchronize toy unsynchronized_state =
       (synchronized_view toy unsynchronized_state)
         \<lparr>ri_wkm := (ri_wkm (synchronized_view toy unsynchronized_state))\<lparr>is_synchronized := 1\<rparr>\<rparr>"
proof -
  have a: "is_synchronized (ri_wkm three_body) \<noteq> 0"
    by (simp add: three_body_def)
  have cor: "correctors_keep toy dt" using toy_keeps_dt by (simp add: keeps_def)
  have b: "is_synchronized (ri_wkm unsynchronized_state) = 0 \<and> correctors_keep toy dt
        \<and> correctors_keep toy (\<lambda>s. keep_unsynchronized (ri_whfast s))"
    using cor toy_correctors_keep_ku by (simp add: state_defs example_defs)
  have c: "keep_unsynchronized (ri_whfast unsynchronized_state) = 0"
    by (simp add: state_defs example_defs)
  show ?thesis
    using synchronize_steps [of three_body toy] synchronize_steps [of unsynchronized_state toy]
      a b c
    by (simp add: Let_def)
qed

text \<open>
  Claim C2, amended. A synchronization of an unsynchronized state under the
  keep-unsynchronized policy leaves the Coordinate Buffer with exactly its contents
  before the call and leaves \<open>is_synchronized\<close> at 0, when the buffer holds \<open>N\<close>
  particles and the operators leave \<open>N\<close>, \<open>dt\<close>, the two flags and the size of the
  buffer alone. The rest of the state is not restored: \<open>gravity_ignore_terms\<close> and the
  inertial particles are those of the synchronized view.
\<close>

theorem synchronize_keep_unsynchronized:
  assumes "is_synchronized (ri_wkm r) = 0"
    and "keep_unsynchronized (ri_whfast r) \<noteq> 0"
    and "p_jh (ri_whfast r) = Some pj"
    and "length pj = N r"
    and "correctors_keep E dt"
    and "correctors_keep E N"
    and "correctors_keep E (\<lambda>s. keep_unsynchronized (ri_whfast s))"
    and "correctors_keep E (\<lambda>s. is_synchronized (ri_wkm s))"
    and "correctors_keep E (\<lambda>s. map_option length (p_jh (ri_whfast s)))"
  shows "p_jh (ri_whfast (reb_integrator_wkm_synchronize E r)) = Some pj
     \<and> is_synchronized (ri_wkm (reb_integrator_wkm_synchronize E r)) = 0
     \<and> gravity_ignore_terms (reb_integrator_wkm_synchronize E r)
         = gravity_ignore_terms (synchronized_view E r)
     \<and> particles (reb_integrator_wkm_synchronize E r) = particles (synchronized_view E r)"
proof -
  define v where "v = synchronized_view E r"
  have Nv: "N v = N r"
    unfolding v_def by (rule synchronized_view_keeps [OF assms(6)]) simp_all
  have sv: "is_synchronized (ri_wkm v) = 0"
    unfolding v_def using synchronized_view_keeps [OF assms(8), of r] assms(1) by simp
  have "map_option length (p_jh (ri_whfast v)) = map_option length (p_jh (ri_whfast r))"
    unfolding v_def by (rule synchronized_view_keeps [OF assms(9)]) simp_all
  then obtain cur where cur: "p_jh (ri_whfast v) = Some cur" and len: "length cur = N r"
    using assms(3,4) by auto
  have eq: "reb_integrator_wkm_synchronize E r =
      v\<lparr>ri_whfast := (ri_whfast v)\<lparr>p_jh := Some (memcpy cur (take (N r) pj) (N r))\<rparr>\<rparr>"
    using synchronize_unsynchronized [OF assms(1,5,7)] assms(2,3)
    by (simp add: v_def [symmetric] Let_def cur Nv deref_def)
  have "memcpy cur (take (N r) pj) (N r) = pj"
    using assms(4) len by (simp add: memcpy_def)
  with eq sv show ?thesis by (simp add: v_def)
qed

theorem synchronize_keep_unsynchronized_witness:
  "is_synchronized (ri_wkm peeking_state) = 0
   \<and> keep_unsynchronized (ri_whfast peeking_state) \<noteq> 0
   \<and> p_jh (ri_whfast peeking_state) = Some (particles three_body)
   \<and> length (particles three_body) = N peeking_state
   \<and> correctors_keep toy dt
   \<and> correctors_keep toy N
   \<and> correctors_keep toy (\<lambda>s. keep_unsynchronized (ri_whfast s))
   \<and> correctors_keep toy (\<lambda>s. is_synchronized (ri_wkm s))
   \<and> correctors_keep toy (\<lambda>s. map_option length (p_jh (ri_whfast s)))
   \<and> p_jh (ri_whfast (reb_integrator_wkm_synchronize toy peeking_state))
        = p_jh (ri_whfast peeking_state)
   \<and> is_synchronized (ri_wkm (reb_integrator_wkm_synchronize toy peeking_state)) = 0"
proof -
  have a: "is_synchronized (ri_wkm peeking_state) = 0"
    and b: "keep_unsynchronized (ri_whfast peeking_state) \<noteq> 0"
    and c: "p_jh (ri_whfast peeking_state) = Some (particles three_body)"
    and d: "length (particles three_body) = N peeking_state"
    by (simp_all add: state_defs example_defs)
  have cor: "correctors_keep toy dt" using toy_keeps_dt by (simp add: keeps_def)
  have cos: "correctors_keep toy (\<lambda>s. is_synchronized (ri_wkm s))"
    using toy_keeps_sync by (simp add: keeps_def)
  show ?thesis
    using synchronize_keep_unsynchronized [OF a b c d cor toy_correctors_keep_N
        toy_correctors_keep_ku cos toy_correctors_keep_len]
      a b c d cor toy_correctors_keep_N toy_correctors_keep_ku cos toy_correctors_keep_len
    by simp
qed

text \<open>
  The state after the call differs from the state before it: the flag for the force
  evaluator has gone from 0 to 1, and the inertial particles have moved with the
  trailing drift.
\<close>

theorem synchronize_keep_unsynchronized_counterexample:
  "is_synchronized (ri_wkm peeking_without_corrector) = 0
   \<and> keep_unsynchronized (ri_whfast peeking_without_corrector) = 1
   \<and> gravity_ignore_terms peeking_without_corrector = 0
   \<and> gravity_ignore_terms (reb_integrator_wkm_synchronize toy peeking_without_corrector) = 1
   \<and> y (particles peeking_without_corrector ! 2) = 2
   \<and> y (particles (reb_integrator_wkm_synchronize toy peeking_without_corrector) ! 2) = 3203 / 1600
   \<and> reb_integrator_wkm_synchronize toy peeking_without_corrector \<noteq> peeking_without_corrector"
proof -
  have g: "gravity_ignore_terms (reb_integrator_wkm_synchronize toy peeking_without_corrector) = 1"
    by (simp add: reb_integrator_wkm_synchronize_def Let_def state_defs example_defs toy_defs
          c_division)
  have g0: "gravity_ignore_terms peeking_without_corrector = 0"
    by (simp add: state_defs example_defs)
  have p: "y (particles (reb_integrator_wkm_synchronize toy peeking_without_corrector) ! 2) = 3203 / 1600"
    by (simp add: reb_integrator_wkm_synchronize_def Let_def state_defs example_defs toy_defs
          c_division deref_def copy_pos_def copy_vel_def)
  from g g0 have "reb_integrator_wkm_synchronize toy peeking_without_corrector
      \<noteq> peeking_without_corrector"
    by auto
  with g g0 p show ?thesis
    by (simp add: state_defs example_defs)
qed

section \<open>Part 2\<close>

text \<open>
  Claim C3. With the kernel digit 0 and the Coordinate Buffer present, part 2 applies
  the nine stages kick \<open>-1/6\<close>, drift \<open>-1/4\<close>, kick \<open>1/6\<close>, drift \<open>1/8\<close>, kick \<open>1\<close>,
  drift \<open>-1/8\<close>, kick \<open>-1/6\<close>, drift \<open>1/4\<close>, kick \<open>1/6\<close>, in units of \<open>dt\<close>; a drift is
  the orbital drift and the centre-of-mass drift with the same coefficient, and every
  kick but the first comes after a repositioning and a force evaluation. Then the step
  is finished. The source reads \<open>dt\<close> anew for every stage, so the operators are
  supposed to leave \<open>dt\<close> alone.
\<close>

theorem part2_composition_sequence:
  assumes "corrector (ri_wkm r) sdiv 10 = 0"
    and "p_jh (ri_whfast r) = Some pj"
    and "operators_keep E dt"
  shows "reb_integrator_wkm_part2 E r =
           wkm_finish E (run_stages E (N r) r (composition_stages E (dt r)))"
  using assms
  by (simp add: reb_integrator_wkm_part2_def wkm_finish_def Let_def composition_eq)

theorem part2_composition_sequence_witness:
  "corrector (ri_wkm composition_state) sdiv 10 = 0
   \<and> p_jh (ri_whfast composition_state) \<noteq> None
   \<and> operators_keep toy dt
   \<and> rest (reb_integrator_wkm_part2 toy composition_state) =
       [Call_kick (- (1 / 600)),
        Call_kepler (- (1 / 400)), Call_com (- (1 / 400)), Call_force,
        Call_kick (1 / 600),
        Call_kepler (1 / 800), Call_com (1 / 800), Call_force,
        Call_kick (1 / 100),
        Call_kepler (- (1 / 800)), Call_com (- (1 / 800)), Call_force,
        Call_kick (- (1 / 600)),
        Call_kepler (1 / 400), Call_com (1 / 400), Call_force,
        Call_kick (1 / 600)]"
proof -
  have a: "corrector (ri_wkm composition_state) sdiv 10 = 0"
    and b: "p_jh (ri_whfast composition_state) = Some (particles three_body)"
    by (simp_all add: state_defs example_defs c_division)
  note eq = part2_composition_sequence [OF a b toy_operators_keep_dt]
  have "rest (wkm_finish toy (run_stages toy (N composition_state) composition_state
           (composition_stages toy (dt composition_state)))) =
       [Call_kick (- (1 / 600)),
        Call_kepler (- (1 / 400)), Call_com (- (1 / 400)), Call_force,
        Call_kick (1 / 600),
        Call_kepler (1 / 800), Call_com (1 / 800), Call_force,
        Call_kick (1 / 100),
        Call_kepler (- (1 / 800)), Call_com (- (1 / 800)), Call_force,
        Call_kick (- (1 / 600)),
        Call_kepler (1 / 400), Call_com (1 / 400), Call_force,
        Call_kick (1 / 600)]"
    by (simp add: wkm_finish_def run_stages_def composition_stages_def drift_def Let_def
          toy_defs state_defs example_defs)
  with eq a b toy_operators_keep_dt show ?thesis by simp
qed

text \<open>
  Claim C4, amended. With the kernel digit 1 and the Coordinate Buffer present, part 2
  applies no kick before the correction pass. It converts the accelerations at hand to
  the Jacobi frame; copies the \<open>N\<close> Jacobi particles into the Scratch Buffer, which it
  reallocates first when its recorded size is not \<open>N\<close>; for \<open>i = 1, \<dots>, N - 1\<close> adds
  the mass of Jacobi particle \<open>i\<close> to \<open>eta\<close>, which starts as the mass of the inertial
  particle 0, adds \<open>G * eta / r\<^sup>3\<close> times the position to the acceleration of the copy
  when \<open>i > 1\<close>, and moves the Jacobi position by \<open>dt\<^sup>2 / 12\<close> times the
  acceleration of the copy; repositions, reforces and applies the one kick, by \<open>dt\<close>;
  and resets the positions of the Jacobi particles \<open>1, \<dots>, N - 1\<close> from the Scratch
  Buffer. Then the step is finished. The positions so reset are those of the copy
  made before the displacement, when the operators leave the Scratch Buffer and the
  size of the Coordinate Buffer alone.
\<close>

theorem part2_lazy_kernel:
  assumes "corrector (ri_wkm r) sdiv 10 = 1"
    and "p_jh (ri_whfast r) = Some pj"
    and "pj1 = reb_transformations_inertial_to_jacobi_acc E (particles r) pj (particles r) (N r)"
    and "N r \<le> length pj1"
  shows "reb_integrator_wkm_part2 E r = wkm_finish E (lazy_kernel_spec E r pj)
     \<and> (operators_keep E (\<lambda>s. temp_pj (ri_wkm s))
          \<and> operators_keep E (\<lambda>s. map_option length (p_jh (ri_whfast s)))
        \<longrightarrow> (\<exists>q. p_jh (ri_whfast (lazy_kernel_spec E r pj)) = Some q
              \<and> (\<forall>i. 1 \<le> i \<and> i < N r \<longrightarrow>
                    x (q ! i) = x (pj1 ! i) \<and> y (q ! i) = y (pj1 ! i) \<and> z (q ! i) = z (pj1 ! i))))"
proof (intro conjI impI)
  show "reb_integrator_wkm_part2 E r = wkm_finish E (lazy_kernel_spec E r pj)"
    using assms
    by (simp add: reb_integrator_wkm_part2_def wkm_finish_def Let_def part2_lazy_eq)
next
  assume fr: "operators_keep E (\<lambda>s. temp_pj (ri_wkm s))
          \<and> operators_keep E (\<lambda>s. map_option length (p_jh (ri_whfast s)))"
  define n where "n = N r"
  define scratch where "scratch = (if allocated_N (ri_wkm r) \<noteq> n
      then c_realloc E (temp_pj (ri_wkm r)) n else temp_pj (ri_wkm r))"
  define corrected where
    "corrected = on_planets n (lazy_corrected E (G r) (particles r) pj1) (memcpy scratch pj1 n)"
  define displaced where
    "displaced = on_planets n (lazy_displaced E (G r) (dt r) (particles r) pj1) pj1"
  define ra where "ra = r\<lparr>ri_whfast := (ri_whfast r)\<lparr>p_jh := Some displaced\<rparr>,
                ri_wkm := (ri_wkm r)\<lparr>allocated_N := n, temp_pj := corrected\<rparr>\<rparr>"
  define re where "re = run_stages E n ra [Reposition, Reforce, Kick (dt r)]"
  have spec: "lazy_kernel_spec E r pj = re\<lparr>ri_whfast := (ri_whfast re)\<lparr>p_jh :=
            map_option (\<lambda>cur. on_planets n (lazy_reset cur (temp_pj (ri_wkm re))) cur)
              (p_jh (ri_whfast re))\<rparr>\<rparr>"
    unfolding lazy_kernel_spec_def Let_def re_def ra_def displaced_def corrected_def scratch_def
      n_def assms(3) ..
  have temp: "temp_pj (ri_wkm re) = corrected"
    using operators_keep_run_stages [of E "\<lambda>s. temp_pj (ri_wkm s)" n ra] fr
    by (simp add: re_def ra_def)
  have "map_option length (p_jh (ri_whfast re)) = Some (length pj1)"
    using operators_keep_run_stages [of E "\<lambda>s. map_option length (p_jh (ri_whfast s))" n ra] fr
    by (simp add: re_def ra_def displaced_def length_on_planets)
  then obtain cur where cur: "p_jh (ri_whfast re) = Some cur" and len: "length cur = length pj1"
    by auto
  have nlen: "n \<le> length pj1" using assms(4) by (simp add: n_def)
  have q: "p_jh (ri_whfast (lazy_kernel_spec E r pj))
           = Some (on_planets n (lazy_reset cur corrected) cur)"
    by (simp add: spec cur temp)
  have pos: "x (on_planets n (lazy_reset cur corrected) cur ! i) = x (pj1 ! i)
           \<and> y (on_planets n (lazy_reset cur corrected) cur ! i) = y (pj1 ! i)
           \<and> z (on_planets n (lazy_reset cur corrected) cur ! i) = z (pj1 ! i)"
    if "1 \<le> i" and "i < n" for i
  proof -
    from that nlen have i1: "i < length cur" and i2: "i < length (memcpy scratch pj1 n)"
      using len length_memcpy [of n pj1 scratch] by simp_all
    have "corrected ! i = lazy_corrected E (G r) (particles r) pj1 i"
      using that i2 by (simp add: corrected_def nth_on_planets)
    then show ?thesis
      using that i1 by (simp add: nth_on_planets lazy_reset_def lazy_corrected_pos)
  qed
  show "\<exists>q. p_jh (ri_whfast (lazy_kernel_spec E r pj)) = Some q
              \<and> (\<forall>i. 1 \<le> i \<and> i < N r \<longrightarrow>
                    x (q ! i) = x (pj1 ! i) \<and> y (q ! i) = y (pj1 ! i) \<and> z (q ! i) = z (pj1 ! i))"
    using q pos unfolding n_def by blast
qed

theorem part2_lazy_kernel_witness:
  "corrector (ri_wkm lazy_state) sdiv 10 = 1
   \<and> p_jh (ri_whfast lazy_state) = Some (particles three_body)
   \<and> N lazy_state \<le> length (reb_transformations_inertial_to_jacobi_acc toy
         (particles lazy_state) (particles three_body) (particles lazy_state) (N lazy_state))
   \<and> operators_keep toy (\<lambda>s. temp_pj (ri_wkm s))
   \<and> operators_keep toy (\<lambda>s. map_option length (p_jh (ri_whfast s)))
   \<and> reb_integrator_wkm_part2 toy lazy_state
        = wkm_finish toy (lazy_kernel_spec toy lazy_state (particles three_body))
   \<and> (\<exists>q. p_jh (ri_whfast (lazy_kernel_spec toy lazy_state (particles three_body))) = Some q
         \<and> x (q ! 1) = 1 \<and> y (q ! 1) = 0 \<and> z (q ! 1) = 0
         \<and> x (q ! 2) = 0 \<and> y (q ! 2) = 2 \<and> z (q ! 2) = 0)"
proof -
  define pj1 where "pj1 = reb_transformations_inertial_to_jacobi_acc toy
         (particles lazy_state) (particles three_body) (particles lazy_state) (N lazy_state)"
  have a: "corrector (ri_wkm lazy_state) sdiv 10 = 1"
    and b: "p_jh (ri_whfast lazy_state) = Some (particles three_body)"
    by (simp_all add: state_defs example_defs c_division)
  have n: "N lazy_state = 3"
    by (simp add: state_defs example_defs)
  have c: "N lazy_state \<le> length pj1"
    by (simp add: pj1_def toy_def state_defs example_defs)
  have pos: "x (pj1 ! 1) = 1 \<and> y (pj1 ! 1) = 0 \<and> z (pj1 ! 1) = 0
           \<and> x (pj1 ! 2) = 0 \<and> y (pj1 ! 2) = 2 \<and> z (pj1 ! 2) = 0"
    by (simp add: pj1_def toy_def state_defs example_defs copy_acc_def)
  have f: "operators_keep toy (\<lambda>s. temp_pj (ri_wkm s))
     \<and> operators_keep toy (\<lambda>s. map_option length (p_jh (ri_whfast s)))"
    using toy_operators_keep_temp toy_correctors_keep_len by (simp add: correctors_keep_def)
  from part2_lazy_kernel [OF a b pj1_def c] f
  obtain q where e: "reb_integrator_wkm_part2 toy lazy_state
        = wkm_finish toy (lazy_kernel_spec toy lazy_state (particles three_body))"
    and q: "p_jh (ri_whfast (lazy_kernel_spec toy lazy_state (particles three_body))) = Some q"
    and r: "\<forall>i. 1 \<le> i \<and> i < N lazy_state \<longrightarrow>
              x (q ! i) = x (pj1 ! i) \<and> y (q ! i) = y (pj1 ! i) \<and> z (q ! i) = z (pj1 ! i)"
    by blast
  from r n have "x (q ! 1) = x (pj1 ! 1) \<and> y (q ! 1) = y (pj1 ! 1) \<and> z (q ! 1) = z (pj1 ! 1)"
    and "x (q ! 2) = x (pj1 ! 2) \<and> y (q ! 2) = y (pj1 ! 2) \<and> z (q ! 2) = z (pj1 ! 2)"
    by simp_all
  with pos q have "\<exists>q. p_jh (ri_whfast (lazy_kernel_spec toy lazy_state (particles three_body))) = Some q
         \<and> x (q ! 1) = 1 \<and> y (q ! 1) = 0 \<and> z (q ! 1) = 0
         \<and> x (q ! 2) = 0 \<and> y (q ! 2) = 2 \<and> z (q ! 2) = 0"
    by simp
  with a b c f e show ?thesis unfolding pj1_def by blast
qed

text \<open>
  The calls that part 2 makes with the kernel digit 1 are one force evaluation and one
  kick after it; with a kick on the accelerations at hand before the correction pass
  there would be two kicks.
\<close>

theorem part2_lazy_kernel_counterexample:
  "corrector (ri_wkm lazy_state) sdiv 10 = 1
   \<and> rest lazy_state = []
   \<and> rest (reb_integrator_wkm_part2 toy lazy_state) = [Call_force, Call_kick (1 / 100)]
   \<and> rest (wkm_finish toy (lazy_kernel_with_leading_kick toy lazy_state (dt lazy_state)))
        = [Call_kick (1 / 100), Call_force, Call_kick (1 / 100)]
   \<and> reb_integrator_wkm_part2 toy lazy_state
        \<noteq> wkm_finish toy (lazy_kernel_with_leading_kick toy lazy_state (dt lazy_state))"
proof -
  have a: "rest (reb_integrator_wkm_part2 toy lazy_state) = [Call_force, Call_kick (1 / 100)]"
    by (simp add: reb_integrator_wkm_part2_def wkm_part2_lazy_def Let_def state_defs
          example_defs toy_defs c_division split_beta)
  have b: "rest (wkm_finish toy (lazy_kernel_with_leading_kick toy lazy_state (dt lazy_state)))
        = [Call_kick (1 / 100), Call_force, Call_kick (1 / 100)]"
    by (simp add: lazy_kernel_with_leading_kick_def lazy_kernel_spec_def wkm_finish_def
          run_stages_def Let_def state_defs example_defs toy_defs)
  from a b have "reb_integrator_wkm_part2 toy lazy_state
        \<noteq> wkm_finish toy (lazy_kernel_with_leading_kick toy lazy_state (dt lazy_state))"
    by auto
  with a b show ?thesis
    by (simp add: state_defs example_defs c_division)
qed

text \<open>
  Claim C9. Part 2 does not check the kernel digit. With a digit above 1 and the
  Coordinate Buffer present it applies no kick, no drift and no force evaluation of its
  own, and still finishes the step: the state is marked unsynchronized, it is
  synchronized in safe mode, \<open>t\<close> advances by \<open>dt\<close> and \<open>dt_last_done\<close> becomes \<open>dt\<close>.
  Without safe mode no collaborator is called at all.
\<close>

theorem part2_unknown_kernel:
  assumes "1 < corrector (ri_wkm r) sdiv 10"
    and "p_jh (ri_whfast r) = Some pj"
  shows "reb_integrator_wkm_part2 E r = wkm_finish E r
     \<and> (safe_mode (ri_wkm r) = 0 \<longrightarrow>
          reb_integrator_wkm_part2 E r =
            r\<lparr>ri_wkm := (ri_wkm r)\<lparr>is_synchronized := 0\<rparr>,
              t := t r + dt r, dt_last_done := dt r\<rparr>)"
  using assms
  by (simp add: reb_integrator_wkm_part2_def wkm_finish_def Let_def)

theorem part2_unknown_kernel_witness:
  "1 < corrector (ri_wkm unknown_kernel_state) sdiv 10
   \<and> p_jh (ri_whfast unknown_kernel_state) \<noteq> None
   \<and> safe_mode (ri_wkm unknown_kernel_state) = 0
   \<and> reb_integrator_wkm_part2 toy unknown_kernel_state =
       unknown_kernel_state\<lparr>ri_wkm := (ri_wkm unknown_kernel_state)\<lparr>is_synchronized := 0\<rparr>,
         t := 1 / 100, dt_last_done := 1 / 100\<rparr>
   \<and> rest (reb_integrator_wkm_part2 toy unknown_kernel_state) = []"
proof -
  have a: "1 < corrector (ri_wkm unknown_kernel_state) sdiv 10"
    and b: "p_jh (ri_whfast unknown_kernel_state) = Some (particles three_body)"
    and c: "safe_mode (ri_wkm unknown_kernel_state) = 0"
    by (simp_all add: state_defs example_defs c_division)
  have "reb_integrator_wkm_part2 toy unknown_kernel_state =
       unknown_kernel_state\<lparr>ri_wkm := (ri_wkm unknown_kernel_state)\<lparr>is_synchronized := 0\<rparr>,
         t := t unknown_kernel_state + dt unknown_kernel_state,
         dt_last_done := dt unknown_kernel_state\<rparr>"
    using part2_unknown_kernel [OF a b, of toy] c by blast
  moreover have "t unknown_kernel_state = 0" "dt unknown_kernel_state = 1 / 100"
    "rest unknown_kernel_state = []"
    by (simp_all add: state_defs example_defs)
  ultimately show ?thesis using a b c by simp
qed

end
